theory Spec2Isabelle
  imports Complex_Main
begin

section \<open>Data model\<close>

text \<open>
  The repository holds two schema variants of the tracked request. The \<open>Advance\<close>
  model (models/Advance.js) has the six-state lifecycle and is served by the routes
  that import it; the \<open>CashAdvance\<close> model (models/CashAdvance.js) has four states
  and is served by routes/advances.js and routes/manager.js. Each model is its own
  collection of the store.

  Identifiers (\<open>ObjectId\<close>) are natural numbers and dates are integers (milliseconds).
  An amount is the exact value of the finite double that the code holds: every finite
  double is a rational, and the comparisons that the validators make between two
  doubles are the comparisons of their values. The strings that the source compares
  with \<open>===\<close> stay strings; a character is a code unit below 256. A collection is the
  list of its documents in insertion order.
\<close>

type_synonym object_id = nat
type_synonym date = int

record user =
  user_id :: object_id
  firstName :: string
  lastName :: string
  employeeId :: string
  department :: string
  user_role :: string
  user_isActive :: bool

text \<open>One element of \<open>approvals\<close> in the Advance schema (fields approver, role, status,
  comment, date).\<close>

record approval =
  approver :: object_id
  approval_role :: string
  approval_status :: string
  comment :: string
  approval_date :: date

record disbursement_info =
  disbursedBy :: object_id
  disbursedDate :: date
  disbursedAmount :: rat
  payment_method :: string
  reference :: "string option"

text \<open>The Advance document. The schema's \<open>retirement\<close> sub-document is left out: no
  route of the source reads or writes it.\<close>

record advance =
  oid :: object_id
  requestNumber :: string
  requester :: object_id
  amount :: rat
  purpose :: string
  description :: "string option"
  requestDate :: date
  expectedReturnDate :: date
  status :: string
  approvals :: "approval list"
  disbursement :: "disbursement_info option"
  priority :: string
  isActive :: bool

text \<open>What a route answers: the HTTP status with the message and the document, or the
  HTTP status with the message of a failure.\<close>

datatype 'a response = Success nat string 'a | Failure nat string

fun is_success :: "'a response \<Rightarrow> bool" where
  "is_success (Success c m d) = True"
| "is_success (Failure c m) = False"

section \<open>Strings\<close>

text \<open>\<open>String.prototype.trim\<close>, which the \<open>trim\<close> option of a schema path, the \<open>trim()\<close>
  rule of a Joi string and the routes call. The white space and line terminators among
  the code units below 256 are the space, U+0009 to U+000D and the no-break space
  U+00A0.\<close>

definition is_space :: "char \<Rightarrow> bool" where
  "is_space c =
     (c \<in> set [CHR '' '', CHR 0x09, CHR 0x0A, CHR 0x0B, CHR 0x0C, CHR 0x0D, CHR 0xA0])"

definition trim :: "string \<Rightarrow> string" where
  "trim s = rev (dropWhile is_space (rev (dropWhile is_space s)))"

text \<open>\<open>x || y\<close> of JavaScript: an absent or zero number, and an absent or empty string,
  give the right operand.\<close>

definition js_or_num :: "rat option \<Rightarrow> rat \<Rightarrow> rat" where
  "js_or_num x y = (case x of None \<Rightarrow> y | Some v \<Rightarrow> if v = 0 then y else v)"

definition js_or_str :: "string option \<Rightarrow> string \<Rightarrow> string" where
  "js_or_str x y = (case x of None \<Rightarrow> y | Some v \<Rightarrow> if v = [] then y else v)"

section \<open>Advance model: validators, guard and approval (models/Advance.js)\<close>

text \<open>
  The validators that the schema declares, which \<open>save()\<close> runs on the whole document
  before anything else: \<open>required\<close> (a required string must not be empty; the request
  number of a document that has none is the empty string), \<open>min\<close>, \<open>maxlength\<close> and
  \<open>enum\<close>. The paths \<open>requester\<close>, \<open>amount\<close> and \<open>expectedReturnDate\<close> are always
  present in a document of the model, so their \<open>required\<close> has nothing to refuse.
\<close>

definition approval_valid :: "approval \<Rightarrow> bool" where
  "approval_valid e =
     (approval_role e \<in> set [''manager'', ''finance'']
      \<and> approval_status e \<in> set [''approved'', ''rejected''])"

definition validate_advance :: "advance \<Rightarrow> bool" where
  "validate_advance this =
     (requestNumber this \<noteq> []
      \<and> 1 \<le> amount this
      \<and> purpose this \<noteq> [] \<and> length (purpose this) \<le> 500
      \<and> (case description this of None \<Rightarrow> True | Some d \<Rightarrow> length d \<le> 1000)
      \<and> status this \<in> set [''pending'', ''manager_approved'', ''finance_approved'',
                             ''disbursed'', ''rejected'', ''retired'']
      \<and> list_all approval_valid (approvals this)
      \<and> (case disbursement this of
            None \<Rightarrow> True
          | Some x \<Rightarrow> payment_method x \<in> set [''cash'', ''bank_transfer'', ''check''])
      \<and> priority this \<in> set [''low'', ''medium'', ''high'', ''urgent''])"

definition canBeApprovedBy :: "advance \<Rightarrow> string \<Rightarrow> bool" where
  "canBeApprovedBy this userRole =
     (if status this = ''rejected'' \<or> status this = ''retired'' then False
      else if userRole = ''manager'' \<and> status this = ''pending'' then True
      else if userRole = ''finance'' \<and> status this = ''manager_approved'' then True
      else False)"

text \<open>\<open>addApproval\<close> first pushes the event, then updates the main status. The two
  statements are two functions, composed in the source's order.\<close>

definition pushApproval :: "advance \<Rightarrow> approval \<Rightarrow> advance" where
  "pushApproval this ev = this\<lparr>approvals := approvals this @ [ev]\<rparr>"

definition updateMainStatus :: "advance \<Rightarrow> string \<Rightarrow> string \<Rightarrow> advance" where
  "updateMainStatus this rl st =
     (if st = ''rejected'' then this\<lparr>status := ''rejected''\<rparr>
      else if rl = ''manager'' \<and> st = ''approved'' then this\<lparr>status := ''manager_approved''\<rparr>
      else if rl = ''finance'' \<and> st = ''approved'' then this\<lparr>status := ''finance_approved''\<rparr>
      else this)"

text \<open>The parameter \<open>comment\<close> defaults to the empty string when the caller passes
  \<open>undefined\<close>; \<open>now\<close> is the value of \<open>new Date()\<close>. The push casts the element to
  the schema of \<open>approvals\<close>, whose \<open>comment\<close> path has the \<open>trim\<close> option: the
  element that enters the array holds the trimmed comment.\<close>

definition addApproval ::
  "advance \<Rightarrow> object_id \<Rightarrow> string \<Rightarrow> string \<Rightarrow> string option \<Rightarrow> date \<Rightarrow> advance" where
  "addApproval this approverId rl st cmt now =
     updateMainStatus
       (pushApproval this
          \<lparr>approver = approverId, approval_role = rl, approval_status = st,
           comment = trim (case cmt of None \<Rightarrow> '''' | Some c \<Rightarrow> c),
           approval_date = now\<rparr>)
       rl st"

section \<open>Middleware and store access\<close>

text \<open>
  Every route below runs after \<open>authenticate\<close>, which resolves the bearer token to an
  active user and stores it in \<open>req.user\<close>; the routes take that user as their first
  argument. \<open>authorize\<close> answers 403 unless the user's role is one of the listed
  roles; \<open>None\<close> stands for the call of \<open>next()\<close>.
\<close>

definition authorize :: "string list \<Rightarrow> user \<Rightarrow> (nat \<times> string) option" where
  "authorize roles u =
     (if user_role u \<notin> set roles
      then Some (403, ''Access denied. Insufficient permissions.'')
      else None)"

definition canApprove :: "user \<Rightarrow> (nat \<times> string) option" where
  "canApprove = authorize [''manager'', ''finance'', ''admin'']"

definition findById :: "advance list \<Rightarrow> object_id \<Rightarrow> advance option" where
  "findById store i = find (\<lambda>d. oid d = i) store"

text \<open>
  \<open>save()\<close> on a document that was read from the collection: the validators run first,
  and a document they refuse is not written (the call rejects, \<open>None\<close>); then the
  \<open>pre("save")\<close> hook, which does nothing on a document that has a request number, as
  every document that passed the validators has; then the write under the document's
  \<open>_id\<close>, which is \<open>save_advance\<close>.
\<close>

definition save_advance :: "advance \<Rightarrow> advance list \<Rightarrow> advance list" where
  "save_advance a store = map (\<lambda>d. if oid d = oid a then a else d) store"

definition advance_save :: "advance \<Rightarrow> advance list \<Rightarrow> advance list option" where
  "advance_save this store =
     (if validate_advance this then Some (save_advance this store) else None)"

section \<open>Advance routes: approve and disburse\<close>

text \<open>
  \<open>PUT /api/advances/:id/approve\<close>. The body carries \<open>status\<close> and an optional
  \<open>comment\<close>; a body without \<open>status\<close> behaves like one whose status is neither of the
  two accepted words. A route returns its answer and the collection as it leaves it;
  a \<open>save()\<close> that rejects is caught by the route and answered with 500.
\<close>

definition approve_route ::
  "user \<Rightarrow> object_id \<Rightarrow> string \<Rightarrow> string option \<Rightarrow> date \<Rightarrow> advance list
     \<Rightarrow> advance response \<times> advance list" where
  "approve_route u i st cmt now store =
     (case canApprove u of
        Some (c, m) \<Rightarrow> (Failure c m, store)
      | None \<Rightarrow>
          if st \<notin> set [''approved'', ''rejected'']
          then (Failure 400
                  (''Status must be either '' @ [CHR 0x22] @ ''approved'' @ [CHR 0x22]
                     @ '' or '' @ [CHR 0x22] @ ''rejected'' @ [CHR 0x22]), store)
          else (case findById store i of
                  None \<Rightarrow> (Failure 404 ''Cash advance request not found'', store)
                | Some advance \<Rightarrow>
                    if \<not> canBeApprovedBy advance (user_role u)
                    then (Failure 400 (''This request cannot be '' @ st @ '' at this stage''),
                          store)
                    else
                      (let advance' = addApproval advance (user_id u) (user_role u) st cmt now
                       in case advance_save advance' store of
                            None \<Rightarrow> (Failure 500 ''Error processing approval'', store)
                          | Some store' \<Rightarrow>
                              (Success 200 (''Cash advance request '' @ st @ '' successfully'')
                                 advance',
                               store'))))"

text \<open>\<open>PUT /api/advances/:id/disburse\<close>. No middleware validates the body; the payment
  method it names is checked by the \<open>enum\<close> of the schema when the document is saved.\<close>

record disburse_body =
  body_disbursedAmount :: "rat option"
  body_method :: "string option"
  body_reference :: "string option"

definition disburse_route ::
  "user \<Rightarrow> object_id \<Rightarrow> disburse_body \<Rightarrow> date \<Rightarrow> advance list
     \<Rightarrow> advance response \<times> advance list" where
  "disburse_route u i body now store =
     (case authorize [''finance'', ''admin''] u of
        Some (c, m) \<Rightarrow> (Failure c m, store)
      | None \<Rightarrow>
          (case findById store i of
             None \<Rightarrow> (Failure 404 ''Cash advance request not found'', store)
           | Some advance \<Rightarrow>
               if status advance \<noteq> ''finance_approved''
               then (Failure 400 ''Advance must be finance approved before disbursement'',
                     store)
               else
                 (let advance' = advance
                        \<lparr>disbursement := Some
                           \<lparr>disbursedBy = user_id u, disbursedDate = now,
                            disbursedAmount =
                              js_or_num (body_disbursedAmount body) (amount advance),
                            payment_method = js_or_str (body_method body) ''cash'',
                            reference = body_reference body\<rparr>,
                         status := ''disbursed''\<rparr>
                  in case advance_save advance' store of
                       None \<Rightarrow> (Failure 500 ''Error disbursing advance'', store)
                     | Some store' \<Rightarrow>
                         (Success 200 ''Cash advance disbursed successfully'' advance',
                          store'))))"

section \<open>CashAdvance model and its routes\<close>

record retirement_info =
  retirementDate :: "date option"
  totalExpenses :: "rat option"
  expenseBreakdown :: "string option"
  retiredAt :: date

record cash_advance =
  ca_id :: object_id
  ca_user :: object_id
  ca_amount :: rat
  ca_purpose :: string
  ca_description :: string
  ca_status :: string
  ca_priority :: string
  dateNeeded :: date
  ca_retirement :: "retirement_info option"
  approvedBy :: "object_id option"
  rejectedReason :: "string option"

text \<open>
  The validators of the CashAdvance schema. The lower bound of the amount is the
  double that the literal \<open>0.01\<close> denotes, 5764607523034235 / 2^59. The paths \<open>user\<close>,
  \<open>amount\<close> and \<open>dateNeeded\<close> are always present in a document of the model; the
  sub-document \<open>retirement\<close> has no validator.
\<close>

definition validate_cash :: "cash_advance \<Rightarrow> bool" where
  "validate_cash this =
     (5764607523034235 / 576460752303423488 \<le> ca_amount this \<and> ca_amount this \<le> 1000000
      \<and> ca_purpose this \<noteq> [] \<and> length (ca_purpose this) \<le> 500
      \<and> ca_description this \<noteq> [] \<and> length (ca_description this) \<le> 1000
      \<and> ca_status this \<in> set [''pending'', ''approved'', ''rejected'', ''retired'']
      \<and> ca_priority this \<in> set [''low'', ''medium'', ''high'', ''urgent'']
      \<and> (case rejectedReason this of None \<Rightarrow> True | Some r \<Rightarrow> length r \<le> 500))"

text \<open>\<open>save()\<close> on a document read from the collection: the validators, then the write
  under the document's \<open>_id\<close>. The schema has no hook.\<close>

definition save_cash :: "cash_advance \<Rightarrow> cash_advance list \<Rightarrow> cash_advance list" where
  "save_cash a store = map (\<lambda>d. if ca_id d = ca_id a then a else d) store"

definition cash_save :: "cash_advance \<Rightarrow> cash_advance list \<Rightarrow> cash_advance list option" where
  "cash_save this store =
     (if validate_cash this then Some (save_cash this store) else None)"

record retire_body =
  body_retirementDate :: "date option"
  body_totalExpenses :: "rat option"
  body_expenseBreakdown :: "string option"

text \<open>
  \<open>PUT /api/advances/:id/retire\<close> (routes/advances.js). The middleware
  \<open>validateRetirement\<close> is imported from a file that does not define it in this
  repository, so it is a parameter: the predicate that lets a body through; a body it
  refuses is answered with 400, as the validators of middleware/validation.js do. The
  route looks the document up by its id and its owner together.
\<close>

definition retire_route ::
  "(retire_body \<Rightarrow> bool) \<Rightarrow> user \<Rightarrow> object_id \<Rightarrow> retire_body \<Rightarrow> date
     \<Rightarrow> cash_advance list \<Rightarrow> cash_advance response \<times> cash_advance list" where
  "retire_route validateRetirement u i body now store =
     (if \<not> validateRetirement body then (Failure 400 ''Validation error'', store)
      else
        (case find (\<lambda>d. ca_id d = i \<and> ca_user d = user_id u) store of
           None \<Rightarrow> (Failure 404 ''Cash advance request not found'', store)
         | Some advance \<Rightarrow>
             if ca_status advance \<noteq> ''approved''
             then (Failure 400 ''Only approved advances can be retired'', store)
             else if ca_status advance = ''retired''
             then (Failure 400 ''Advance has already been retired'', store)
             else
               (let advance' = advance
                      \<lparr>ca_status := ''retired'',
                       ca_retirement := Some
                         \<lparr>retirementDate = body_retirementDate body,
                          totalExpenses = body_totalExpenses body,
                          expenseBreakdown = body_expenseBreakdown body,
                          retiredAt = now\<rparr>\<rparr>
                in case cash_save advance' store of
                     None \<Rightarrow> (Failure 500 ''Error retiring cash advance'', store)
                   | Some store' \<Rightarrow>
                       (Success 200 ''Cash advance retired successfully'' advance',
                        store'))))"

text \<open>
  \<open>PUT /api/manager/requests/:id/approve\<close> and \<open>.../reject\<close> (routes/manager.js): the
  manager decides the pending requests of the active staff of the manager's own
  department. The fields \<open>approvedAt\<close>, \<open>rejectedBy\<close> and \<open>rejectedAt\<close> that the routes
  assign are not in the schema and are not stored.
\<close>

definition teamMemberIds :: "user list \<Rightarrow> user \<Rightarrow> object_id list" where
  "teamMemberIds us manager =
     map user_id
       (filter (\<lambda>m. department m = department manager \<and> user_role m = ''staff''
                  \<and> user_isActive m) us)"

definition manager_approve_route ::
  "user list \<Rightarrow> user \<Rightarrow> object_id \<Rightarrow> cash_advance list
     \<Rightarrow> cash_advance response \<times> cash_advance list" where
  "manager_approve_route us u i store =
     (case authorize [''manager''] u of
        Some (c, m) \<Rightarrow> (Failure c m, store)
      | None \<Rightarrow>
          (case find (\<lambda>m. user_id m = user_id u) us of
             None \<Rightarrow> (Failure 500 ''Error approving request'', store)
           | Some manager \<Rightarrow>
               (case find (\<lambda>d. ca_id d = i \<and> ca_status d = ''pending''
                              \<and> ca_user d \<in> set (teamMemberIds us manager)) store of
                  None \<Rightarrow> (Failure 404 ''Request not found or already processed'', store)
                | Some advance \<Rightarrow>
                    (let advance' = advance
                           \<lparr>ca_status := ''approved'', approvedBy := Some (user_id u)\<rparr>
                     in case cash_save advance' store of
                          None \<Rightarrow> (Failure 500 ''Error approving request'', store)
                        | Some store' \<Rightarrow>
                            (Success 200 ''Request approved successfully'' advance',
                             store')))))"

definition manager_reject_route ::
  "user list \<Rightarrow> user \<Rightarrow> object_id \<Rightarrow> string option \<Rightarrow> cash_advance list
     \<Rightarrow> cash_advance response \<times> cash_advance list" where
  "manager_reject_route us u i reason store =
     (case authorize [''manager''] u of
        Some (c, m) \<Rightarrow> (Failure c m, store)
      | None \<Rightarrow>
          (case find (\<lambda>m. user_id m = user_id u) us of
             None \<Rightarrow> (Failure 500 ''Error rejecting request'', store)
           | Some manager \<Rightarrow>
               (case find (\<lambda>d. ca_id d = i \<and> ca_status d = ''pending''
                              \<and> ca_user d \<in> set (teamMemberIds us manager)) store of
                  None \<Rightarrow> (Failure 404 ''Request not found or already processed'', store)
                | Some advance \<Rightarrow>
                    if js_or_str reason [] = [] \<or> length (trim (js_or_str reason [])) = 0
                    then (Failure 400 ''Rejection reason is required'', store)
                    else
                      (let advance' = advance
                             \<lparr>ca_status := ''rejected'',
                              rejectedReason := Some (trim (js_or_str reason []))\<rparr>
                       in case cash_save advance' store of
                            None \<Rightarrow> (Failure 500 ''Error rejecting request'', store)
                          | Some store' \<Rightarrow>
                              (Success 200 ''Request rejected successfully'' advance',
                               store')))))"

section \<open>The lifecycle requests as one transition function\<close>

text \<open>
  The state of the service is the three collections. \<open>handle\<close> runs one lifecycle
  request against it and \<open>run\<close> a sequence of them, each on the state the previous one
  left. The requests are those of the Advance routes, of routes/advances.js and of
  routes/manager.js; the older \<open>PUT /api/manager/approve/:id\<close>, which also selects
  pending requests only, is not among them.
\<close>

record system =
  users :: "user list"
  advances :: "advance list"
  cashAdvances :: "cash_advance list"

datatype request =
    Approve user object_id string "string option" date
  | Disburse user object_id disburse_body date
  | Retire user object_id retire_body date
  | ManagerApprove user object_id
  | ManagerReject user object_id "string option"

fun handle :: "(retire_body \<Rightarrow> bool) \<Rightarrow> request \<Rightarrow> system \<Rightarrow> bool \<times> system" where
  "handle vr (Approve u i st cmt now) s =
     (let (r, store) = approve_route u i st cmt now (advances s)
      in (is_success r, s\<lparr>advances := store\<rparr>))"
| "handle vr (Disburse u i body now) s =
     (let (r, store) = disburse_route u i body now (advances s)
      in (is_success r, s\<lparr>advances := store\<rparr>))"
| "handle vr (Retire u i body now) s =
     (let (r, store) = retire_route vr u i body now (cashAdvances s)
      in (is_success r, s\<lparr>cashAdvances := store\<rparr>))"
| "handle vr (ManagerApprove u i) s =
     (let (r, store) = manager_approve_route (users s) u i (cashAdvances s)
      in (is_success r, s\<lparr>cashAdvances := store\<rparr>))"
| "handle vr (ManagerReject u i reason) s =
     (let (r, store) = manager_reject_route (users s) u i reason (cashAdvances s)
      in (is_success r, s\<lparr>cashAdvances := store\<rparr>))"

fun run :: "(retire_body \<Rightarrow> bool) \<Rightarrow> request list \<Rightarrow> system \<Rightarrow> system" where
  "run vr [] s = s"
| "run vr (r # rs) s = run vr rs (snd (handle vr r s))"

section \<open>Request numbers (the pre-save hook of models/Advance.js)\<close>

text \<open>
  \<open>String(n)\<close> for a natural number, \<open>padStart\<close>, \<open>slice(-k)\<close> and \<open>parseInt\<close>. A
  JavaScript number that may be \<open>NaN\<close> is a \<open>nat option\<close> with \<open>None\<close> for \<open>NaN\<close>.
  \<open>parseInt\<close> is modelled on strings without leading white space, sign or radix
  prefix, which is what the last four characters of a generated request number are: it
  reads the leading decimal digits and gives \<open>NaN\<close> when there are none.
\<close>

definition digit_char :: "nat \<Rightarrow> char" where
  "digit_char d = ''0123456789'' ! d"

function String_nat :: "nat \<Rightarrow> string" where
  "String_nat n = (if n < 10 then [digit_char n] else String_nat (n div 10) @ [digit_char (n mod 10)])"
  by pat_completeness auto
termination
  by (relation "measure id") auto

declare String_nat.simps [simp del]

definition String_num :: "nat option \<Rightarrow> string" where
  "String_num x = (case x of None \<Rightarrow> ''NaN'' | Some n \<Rightarrow> String_nat n)"

definition padStart :: "nat \<Rightarrow> char \<Rightarrow> string \<Rightarrow> string" where
  "padStart n c s = replicate (n - length s) c @ s"

definition slice_last :: "nat \<Rightarrow> string \<Rightarrow> string" where
  "slice_last k s = drop (length s - k) s"

definition is_digit :: "char \<Rightarrow> bool" where
  "is_digit c = (c \<in> set ''0123456789'')"

definition digit_val :: "char \<Rightarrow> nat" where
  "digit_val c = length (takeWhile (\<lambda>x. x \<noteq> c) ''0123456789'')"

definition parseInt :: "string \<Rightarrow> nat option" where
  "parseInt s =
     (let ds = takeWhile is_digit s
      in if ds = [] then None else Some (foldl (\<lambda>acc c. 10 * acc + digit_val c) 0 ds))"

text \<open>The order of strings that the store sorts by: code unit by code unit, a proper
  prefix first.\<close>

fun str_less :: "string \<Rightarrow> string \<Rightarrow> bool" where
  "str_less [] [] = False"
| "str_less [] (y # ys) = True"
| "str_less (x # xs) [] = False"
| "str_less (x # xs) (y # ys) =
     ((of_char x :: nat) < of_char y \<or> (x = y \<and> str_less xs ys))"

text \<open>\<open>findOne({requestNumber: /^prefix/}).sort({requestNumber: -1})\<close>: the document
  with the greatest request number among those that start with the prefix.\<close>

fun max_requestNumber :: "advance \<Rightarrow> advance list \<Rightarrow> advance" where
  "max_requestNumber a [] = a"
| "max_requestNumber a (d # ds) =
     max_requestNumber (if str_less (requestNumber a) (requestNumber d) then d else a) ds"

definition starts_with :: "string \<Rightarrow> string \<Rightarrow> bool" where
  "starts_with pre s = (take (length pre) s = pre)"

definition findOne_last :: "string \<Rightarrow> advance list \<Rightarrow> advance option" where
  "findOne_last pre store =
     (case filter (\<lambda>d. starts_with pre (requestNumber d)) store of
        [] \<Rightarrow> None
      | d # ds \<Rightarrow> Some (max_requestNumber d ds))"

definition month_prefix :: "nat \<Rightarrow> nat \<Rightarrow> string" where
  "month_prefix year month0 =
     ''ADV'' @ String_nat year @ padStart 2 (CHR ''0'') (String_nat (month0 + 1))"

text \<open>The hook. \<open>year\<close> is \<open>getFullYear()\<close> and \<open>month0\<close> is \<open>getMonth()\<close> of the
  current date; a document without a request number has the empty string there.\<close>

definition pre_save :: "nat \<Rightarrow> nat \<Rightarrow> advance list \<Rightarrow> advance \<Rightarrow> advance" where
  "pre_save year month0 store this =
     (if requestNumber this = [] then
        (let lastAdvance = findOne_last (month_prefix year month0) store;
             sequence =
               (case lastAdvance of
                  None \<Rightarrow> Some 1
                | Some l \<Rightarrow>
                    (case parseInt (slice_last 4 (requestNumber l)) of
                       None \<Rightarrow> None
                     | Some lastSequence \<Rightarrow> Some (lastSequence + 1)))
         in this\<lparr>requestNumber :=
                   month_prefix year month0 @ padStart 4 (CHR ''0'') (String_num sequence)\<rparr>)
      else this)"

section \<open>Creation (POST /api/advances)\<close>

record create_body =
  body_amount :: rat
  body_purpose :: string
  body_description :: "string option"
  body_expectedReturnDate :: date
  body_priority :: "string option"

text \<open>The Joi schema of \<open>validateAdvanceRequest\<close> on a body whose required fields are
  present and of the right type. The middleware judges the body and passes it on as it
  came: the trimmed strings are not written back to \<open>req.body\<close>.\<close>

definition validateAdvanceRequest :: "create_body \<Rightarrow> date \<Rightarrow> bool" where
  "validateAdvanceRequest body now =
     (0 < body_amount body \<and> body_amount body \<le> 1000000
      \<and> 10 \<le> length (trim (body_purpose body)) \<and> length (trim (body_purpose body)) \<le> 500
      \<and> (case body_description body of
            None \<Rightarrow> True
          | Some d \<Rightarrow> trim d \<noteq> [] \<and> length (trim d) \<le> 1000)
      \<and> now < body_expectedReturnDate body
      \<and> (case body_priority body of
            None \<Rightarrow> True
          | Some p \<Rightarrow> p \<in> set [''low'', ''medium'', ''high'', ''urgent'']))"

text \<open>The unique indexes of the collection (\<open>_id\<close> and \<open>requestNumber\<close>): an insert that
  repeats either is refused.\<close>

definition insert_advance :: "advance \<Rightarrow> advance list \<Rightarrow> string + advance list" where
  "insert_advance a store =
     (if oid a \<in> oid ` set store \<or> requestNumber a \<in> requestNumber ` set store
      then Inl ''E11000 duplicate key error''
      else Inr (store @ [a]))"

text \<open>
  \<open>new Advance({...})\<close>: the fields the route passes, cast by the schema (the \<open>trim\<close>
  option of \<open>purpose\<close> and \<open>description\<close>), and the defaults of the schema. The route
  passes no request number. \<open>new_id\<close> is the identifier the driver generates for the
  new document.
\<close>

definition new_advance :: "user \<Rightarrow> create_body \<Rightarrow> date \<Rightarrow> object_id \<Rightarrow> advance" where
  "new_advance u body now new_id =
     \<lparr>oid = new_id, requestNumber = [], requester = user_id u,
      amount = body_amount body, purpose = trim (body_purpose body),
      description = map_option trim (body_description body), requestDate = now,
      expectedReturnDate = body_expectedReturnDate body, status = ''pending'',
      approvals = [], disbursement = None,
      priority = js_or_str (body_priority body) ''medium'', isActive = True\<rparr>"

text \<open>
  \<open>save()\<close> on a new document: the validators of the schema run first and a document
  they refuse goes no further; then the \<open>pre("save")\<close> hook; then the insert. The
  result is the document as it was written and the collection after the insert.
\<close>

definition save_new ::
  "nat \<Rightarrow> nat \<Rightarrow> advance \<Rightarrow> advance list \<Rightarrow> string + advance \<times> advance list" where
  "save_new year month0 this store =
     (if \<not> validate_advance this then Inl ''ValidationError''
      else
        (let this' = pre_save year month0 store this
         in case insert_advance this' store of
              Inl e \<Rightarrow> Inl e
            | Inr store' \<Rightarrow> Inr (this', store')))"

definition post_advances_route ::
  "user \<Rightarrow> create_body \<Rightarrow> nat \<Rightarrow> nat \<Rightarrow> date \<Rightarrow> object_id \<Rightarrow> advance list
     \<Rightarrow> advance response \<times> advance list" where
  "post_advances_route u body year month0 now new_id store =
     (if \<not> validateAdvanceRequest body now
      then (Failure 400 ''Validation error'', store)
      else
        (case save_new year month0 (new_advance u body now new_id) store of
           Inl e \<Rightarrow> (Failure 500 ''Error creating cash advance request'', store)
         | Inr (advance, store') \<Rightarrow>
             (Success 201 ''Cash advance request created successfully'' advance, store')))"

section \<open>Listing (GET /api/advances and GET /api/advances/my-requests)\<close>

text \<open>
  The query of a list request after parsing: \<open>q_page\<close> and \<open>q_limit\<close> are the values
  of \<open>parseInt(page)\<close> and \<open>parseInt(limit)\<close> (1 and 10 when the parameter is absent),
  \<open>q_startDate\<close> and \<open>q_endDate\<close> the dates of non-empty parameters. A parameter that
  does not parse is outside the model.
\<close>

record list_query =
  q_page :: int
  q_limit :: int
  q_status :: "string option"
  q_priority :: "string option"
  q_search :: "string option"
  q_startDate :: "date option"
  q_endDate :: "date option"

text \<open>The filter object; \<open>isActive: true\<close> is always part of it.\<close>

record adv_filter =
  f_requester :: "object_id option"
  f_status :: "string option"
  f_priority :: "string option"
  f_requestDate_gte :: "date option"
  f_requestDate_lte :: "date option"

definition not_all :: "string option \<Rightarrow> string option" where
  "not_all x = (case x of None \<Rightarrow> None | Some v \<Rightarrow> if v \<noteq> [] \<and> v \<noteq> ''all'' then Some v else None)"

definition build_filter :: "user \<Rightarrow> list_query \<Rightarrow> adv_filter" where
  "build_filter u q =
     \<lparr>f_requester = (if user_role u = ''staff'' then Some (user_id u) else None),
      f_status = not_all (q_status q),
      f_priority = not_all (q_priority q),
      f_requestDate_gte = q_startDate q,
      f_requestDate_lte = q_endDate q\<rparr>"

definition matches :: "adv_filter \<Rightarrow> advance \<Rightarrow> bool" where
  "matches f d =
     (isActive d
      \<and> (case f_requester f of None \<Rightarrow> True | Some r \<Rightarrow> requester d = r)
      \<and> (case f_status f of None \<Rightarrow> True | Some v \<Rightarrow> status d = v)
      \<and> (case f_priority f of None \<Rightarrow> True | Some v \<Rightarrow> priority d = v)
      \<and> (case f_requestDate_gte f of None \<Rightarrow> True | Some t \<Rightarrow> t \<le> requestDate d)
      \<and> (case f_requestDate_lte f of None \<Rightarrow> True | Some t \<Rightarrow> requestDate d \<le> t))"

text \<open>\<open>sort({requestDate: -1})\<close>; documents with equal dates keep their insertion
  order.\<close>

definition sort_requestDate_desc :: "advance list \<Rightarrow> advance list" where
  "sort_requestDate_desc xs = sort_key (\<lambda>d. - requestDate d) xs"

text \<open>
  \<open>skip\<close> and \<open>limit\<close> as the store applies them. A query cursor refuses a negative
  skip, reads a limit of 0 as no limit and a negative limit as its absolute value; the
  pipeline stages \<open>$skip\<close> and \<open>$limit\<close> refuse a negative skip and a limit that is not
  positive. \<open>None\<close> is the refusal, which the routes answer with 500.
\<close>

definition cursor_skip_limit :: "int \<Rightarrow> int \<Rightarrow> 'a list \<Rightarrow> 'a list option" where
  "cursor_skip_limit skip limit xs =
     (if skip < 0 then None
      else Some (if limit = 0 then drop (nat skip) xs
                 else take (nat \<bar>limit\<bar>) (drop (nat skip) xs)))"

definition pipeline_skip_limit :: "int \<Rightarrow> int \<Rightarrow> 'a list \<Rightarrow> 'a list option" where
  "pipeline_skip_limit skip limit xs =
     (if skip < 0 \<or> limit \<le> 0 then None
      else Some (take (nat limit) (drop (nat skip) xs)))"

text \<open>\<open>Math.ceil(total / limit)\<close> and the comparison \<open>page < totalPages\<close> on JavaScript
  numbers: a division by zero gives \<open>Infinity\<close>, or \<open>NaN\<close> for 0/0.\<close>

datatype js_number = Num int | Infinity | NaN

definition js_ceil_div :: "nat \<Rightarrow> int \<Rightarrow> js_number" where
  "js_ceil_div count limit =
     (if limit = 0 then (if count = 0 then NaN else Infinity)
      else Num (- ((- int count) div limit)))"

fun js_less :: "int \<Rightarrow> js_number \<Rightarrow> bool" where
  "js_less p (Num n) = (p < n)"
| "js_less p Infinity = True"
| "js_less p NaN = False"

record 'a page_data =
  items :: "'a list"
  currentPage :: int
  totalPages :: js_number
  totalAdvances :: nat
  hasNext :: bool
  hasPrev :: bool

definition pagination :: "'a list \<Rightarrow> int \<Rightarrow> int \<Rightarrow> nat \<Rightarrow> 'a page_data" where
  "pagination xs page limit count =
     \<lparr>items = xs, currentPage = page, totalPages = js_ceil_div count limit,
      totalAdvances = count, hasNext = js_less page (js_ceil_div count limit),
      hasPrev = (1 < page)\<rparr>"

text \<open>
  The \<open>$match\<close> of the search pipeline: the filter and one of the five regular
  expression tests, the last three on the joined requester documents. The test
  \<open>new RegExp(search, "i")\<close> is the parameter \<open>rx\<close>, applied to the pattern and the
  subject.
\<close>

definition search_match ::
  "(string \<Rightarrow> string \<Rightarrow> bool) \<Rightarrow> string \<Rightarrow> user list \<Rightarrow> advance \<Rightarrow> bool" where
  "search_match rx s us d =
     (let requesterData = filter (\<lambda>m. user_id m = requester d) us
      in rx s (requestNumber d) \<or> rx s (purpose d)
         \<or> list_ex (\<lambda>m. rx s (firstName m)) requesterData
         \<or> list_ex (\<lambda>m. rx s (lastName m)) requesterData
         \<or> list_ex (\<lambda>m. rx s (employeeId m)) requesterData)"

definition get_advances_route ::
  "(string \<Rightarrow> string \<Rightarrow> bool) \<Rightarrow> user \<Rightarrow> list_query \<Rightarrow> user list \<Rightarrow> advance list
     \<Rightarrow> advance page_data response" where
  "get_advances_route rx u q us store =
     (let f = build_filter u q;
          skip = (q_page q - 1) * q_limit q
      in case q_search q of
           Some s \<Rightarrow>
             if s \<noteq> [] then
               (case pipeline_skip_limit skip (q_limit q)
                       (sort_requestDate_desc
                          (filter (\<lambda>d. matches f d \<and> search_match rx s us d) store)) of
                  None \<Rightarrow> Failure 500 ''Error fetching cash advances''
                | Some docs \<Rightarrow>
                    Success 200 []
                      (pagination docs (q_page q) (q_limit q)
                         (length (filter (matches f) store))))
             else
               (case cursor_skip_limit skip (q_limit q)
                       (sort_requestDate_desc (filter (matches f) store)) of
                  None \<Rightarrow> Failure 500 ''Error fetching cash advances''
                | Some docs \<Rightarrow>
                    Success 200 []
                      (pagination docs (q_page q) (q_limit q)
                         (length (filter (matches f) store))))
         | None \<Rightarrow>
             (case cursor_skip_limit skip (q_limit q)
                     (sort_requestDate_desc (filter (matches f) store)) of
                None \<Rightarrow> Failure 500 ''Error fetching cash advances''
              | Some docs \<Rightarrow>
                  Success 200 []
                    (pagination docs (q_page q) (q_limit q)
                       (length (filter (matches f) store)))))"

text \<open>
  \<open>GET /api/advances/my-requests\<close> (CashAdvance). The filter is the owner and the
  optional status; the order is the default \<open>-createdAt\<close>, the reverse of the insertion
  order (another \<open>sort\<close> parameter is outside the model).
\<close>

definition my_requests_route ::
  "user \<Rightarrow> list_query \<Rightarrow> cash_advance list \<Rightarrow> cash_advance page_data response" where
  "my_requests_route u q store =
     (let matching =
            filter (\<lambda>d. ca_user d = user_id u
                       \<and> (case not_all (q_status q) of None \<Rightarrow> True | Some v \<Rightarrow> ca_status d = v))
              store;
          skip = (q_page q - 1) * q_limit q
      in case cursor_skip_limit skip (q_limit q) (rev matching) of
           None \<Rightarrow> Failure 500 ''Error fetching cash advance requests''
         | Some docs \<Rightarrow>
             Success 200 [] (pagination docs (q_page q) (q_limit q) (length matching)))"

fun payload :: "'a response \<Rightarrow> 'a option" where
  "payload (Success c m d) = Some d"
| "payload (Failure c m) = None"

section \<open>Sample data\<close>

text \<open>The users and documents on which the theorems below are evaluated.\<close>

definition sample_user :: "object_id \<Rightarrow> string \<Rightarrow> string \<Rightarrow> user" where
  "sample_user i nm rl =
     \<lparr>user_id = i, firstName = nm, lastName = ''Okafor'', employeeId = ''EMP'',
      department = ''Sales'', user_role = rl, user_isActive = True\<rparr>"

definition sample_advance :: "object_id \<Rightarrow> string \<Rightarrow> object_id \<Rightarrow> string \<Rightarrow> string \<Rightarrow> advance" where
  "sample_advance i rn req st pur =
     \<lparr>oid = i, requestNumber = rn, requester = req, amount = 500, purpose = pur,
      description = None, requestDate = 1000, expectedReturnDate = 9000, status = st,
      approvals = [], disbursement = None, priority = ''medium'', isActive = True\<rparr>"

definition sample_cash :: "object_id \<Rightarrow> object_id \<Rightarrow> string \<Rightarrow> cash_advance" where
  "sample_cash i owner st =
     \<lparr>ca_id = i, ca_user = owner, ca_amount = 500, ca_purpose = ''travel reimbursement'',
      ca_description = ''client visit'', ca_status = st, ca_priority = ''medium'',
      dateNeeded = 9000, ca_retirement = None, approvedBy = None, rejectedReason = None\<rparr>"

definition sample_body :: create_body where
  "sample_body =
     \<lparr>body_amount = 500, body_purpose = ''travel reimbursement'', body_description = None,
      body_expectedReturnDate = 9000, body_priority = None\<rparr>"

definition sample_query :: "int \<Rightarrow> int \<Rightarrow> string option \<Rightarrow> list_query" where
  "sample_query page limit search =
     \<lparr>q_page = page, q_limit = limit, q_status = None, q_priority = None,
      q_search = search, q_startDate = None, q_endDate = None\<rparr>"

definition sample_users :: "user list" where
  "sample_users =
     [sample_user 101 ''ada'' ''staff'', sample_user 102 ''bola'' ''manager'',
      sample_user 103 ''chidi'' ''finance'', sample_user 104 ''dayo'' ''admin'',
      sample_user 105 ''efe'' ''staff'']"

definition sample_system :: system where
  "sample_system =
     \<lparr>users = sample_users,
      advances =
        [sample_advance 10 ''ADV2026110001'' 101 ''rejected'' ''travel reimbursement'',
         sample_advance 11 ''ADV2026110002'' 101 ''pending'' ''office supplies'',
         sample_advance 12 ''ADV2026110003'' 105 ''finance_approved'' ''conference fees''],
      cashAdvances = [sample_cash 20 101 ''retired'', sample_cash 21 101 ''approved'']\<rparr>"

definition sample_disburse_body :: disburse_body where
  "sample_disburse_body =
     \<lparr>body_disbursedAmount = None, body_method = Some ''bank_transfer'',
      body_reference = None\<rparr>"

definition sample_retire_body :: retire_body where
  "sample_retire_body =
     \<lparr>body_retirementDate = Some 8000, body_totalExpenses = Some 480,
      body_expenseBreakdown = Some ''taxi and hotel''\<rparr>"

definition sample_requests :: "request list" where
  "sample_requests =
     [Approve (sample_user 102 ''bola'' ''manager'') 10 ''approved'' None 2000,
      Disburse (sample_user 103 ''chidi'' ''finance'') 10 sample_disburse_body 3000,
      Retire (sample_user 101 ''ada'' ''staff'') 20 sample_retire_body 4000,
      ManagerApprove (sample_user 102 ''bola'' ''manager'') 20,
      Approve (sample_user 102 ''bola'' ''manager'') 11 ''approved'' None 5000]"



definition wire_disburse_body :: disburse_body where
  "wire_disburse_body =
     \<lparr>body_disbursedAmount = None, body_method = Some ''wire'', body_reference = None\<rparr>"

text \<open>For a pattern without metacharacters, \<open>new RegExp(p, "i").test(s)\<close> holds when
  \<open>s\<close> contains \<open>p\<close> up to letter case. No sample string contains the sample pattern in
  another letter case, so on the sample data the test is containment.\<close>

fun contains :: "string \<Rightarrow> string \<Rightarrow> bool" where
  "contains p [] = (p = [])"
| "contains p (c # cs) = (take (length p) (c # cs) = p \<or> contains p cs)"

section \<open>Guard policy\<close>

text \<open>
  C1. For every advance and every actor role, \<open>canBeApprovedBy\<close> returns true exactly
  when the status is pending and the role is manager, or the status is manager_approved
  and the role is finance; in every other combination it returns false.
\<close>

theorem canBeApprovedBy_iff:
  "canBeApprovedBy a r \<longleftrightarrow>
     (status a = ''pending'' \<and> r = ''manager'') \<or>
     (status a = ''manager_approved'' \<and> r = ''finance'')"
  by (auto simp: canBeApprovedBy_def)

section \<open>Store lemmas\<close>

lemma oid_updateMainStatus: "oid (updateMainStatus a r st) = oid a"
  by (simp add: updateMainStatus_def)

lemma oid_addApproval: "oid (addApproval a ap r st c now) = oid a"
  by (simp add: addApproval_def updateMainStatus_def pushApproval_def)

lemma map_oid_save_advance: "map oid (save_advance a store) = map oid store"
  by (induction store) (auto simp: save_advance_def)

lemma findById_SomeD: "findById store i = Some d \<Longrightarrow> d \<in> set store \<and> oid d = i"
  by (auto simp: findById_def find_Some_iff)

lemma save_advance_keeps: "a \<in> set store \<Longrightarrow> oid a \<noteq> oid a' \<Longrightarrow> a \<in> set (save_advance a' store)"
  by (force simp: save_advance_def)

lemma distinct_oid_eq:
  "distinct (map oid store) \<Longrightarrow> a \<in> set store \<Longrightarrow> d \<in> set store \<Longrightarrow> oid a = oid d \<Longrightarrow> a = d"
  by (meson distinct_map inj_onD)

lemma findById_save_advance:
  "findById store i = Some a \<Longrightarrow> oid a' = i \<Longrightarrow> findById (save_advance a' store) i = Some a'"
  unfolding findById_def save_advance_def by (induction store) (auto split: if_splits)

lemma filter_save_advance:
  "oid a' = i \<Longrightarrow>
     filter (\<lambda>d. oid d \<noteq> i) (save_advance a' store) = filter (\<lambda>d. oid d \<noteq> i) store"
  unfolding save_advance_def by (induction store) auto

lemma length_save_advance: "length (save_advance a' store) = length store"
  by (simp add: save_advance_def)


lemma approve_route_cases:
  "approve_route u i st c now store = (r, store') \<Longrightarrow>
     (\<not> is_success r \<and> store' = store) \<or>
     (\<exists>d. findById store i = Some d \<and> canBeApprovedBy d (user_role u) \<and>
          is_success r \<and> store' = save_advance (addApproval d (user_id u) (user_role u) st c now) store)"
  by (auto simp: approve_route_def advance_save_def Let_def split: option.splits if_splits)

lemma disburse_route_cases:
  "disburse_route u i body now store = (r, store') \<Longrightarrow>
     (\<not> is_success r \<and> store' = store) \<or>
     (\<exists>d info. findById store i = Some d \<and> status d = ''finance_approved'' \<and>
          is_success r \<and>
          store' = save_advance (d\<lparr>disbursement := Some info, status := ''disbursed''\<rparr>) store)"
  by (auto simp: disburse_route_def advance_save_def Let_def split: option.splits if_splits)

section \<open>Approval history\<close>

text \<open>
  C3. For every call of \<open>addApproval\<close>, the approval event is appended to the history
  before the status is mutated, no existing event is modified or removed, and the new
  status is derived from that most recent event: a rejected decision sets rejected
  whatever the role, a manager approval sets manager_approved and a finance approval
  sets finance_approved. The appended event holds the approver, the role, the decision,
  the date of the call and the comment as the schema of the history casts it, without
  its surrounding white space; no other field of the document changes.
\<close>

theorem addApproval_appends_then_derives:
  "(let ev = \<lparr>approver = ap, approval_role = r, approval_status = st,
              comment = trim (case c of None \<Rightarrow> [] | Some x \<Rightarrow> x), approval_date = now\<rparr>;
        a' = addApproval a ap r st c now;
        e = last (approvals a')
    in a' = updateMainStatus (pushApproval a ev) r st
       \<and> status (pushApproval a ev) = status a
       \<and> approvals (pushApproval a ev) = approvals a @ [ev]
       \<and> approvals a' = approvals a @ [ev]
       \<and> e = ev
       \<and> status a' =
           (if approval_status e = ''rejected'' then ''rejected''
            else if approval_role e = ''manager'' \<and> approval_status e = ''approved''
            then ''manager_approved''
            else if approval_role e = ''finance'' \<and> approval_status e = ''approved''
            then ''finance_approved''
            else status a)
       \<and> a' = a\<lparr>approvals := approvals a @ [ev], status := status a'\<rparr>)"
  by (auto simp: Let_def addApproval_def updateMainStatus_def pushApproval_def)

theorem addApproval_appends_then_derives_witness:
  "status (addApproval (sample_advance 11 ''ADV2026110002'' 101 ''pending'' ''office supplies'')
             102 ''manager'' ''approved'' None 2000) = ''manager_approved''
   \<and> status (addApproval (sample_advance 11 ''ADV2026110002'' 101 ''manager_approved'' ''office supplies'')
             103 ''finance'' ''approved'' None 2000) = ''finance_approved''
   \<and> status (addApproval (sample_advance 11 ''ADV2026110002'' 101 ''manager_approved'' ''office supplies'')
             103 ''finance'' ''rejected'' (Some '' no budget '') 2000) = ''rejected''
   \<and> approvals (addApproval (sample_advance 11 ''ADV2026110002'' 101 ''manager_approved'' ''office supplies'')
             103 ''finance'' ''rejected'' (Some '' no budget '') 2000)
       = [\<lparr>approver = 103, approval_role = ''finance'', approval_status = ''rejected'',
           comment = ''no budget'', approval_date = 2000\<rparr>]
   \<and> approvals (addApproval (sample_advance 11 ''ADV2026110002'' 101 ''pending'' ''office supplies'')
             102 ''manager'' ''approved'' None 2000)
       = [\<lparr>approver = 102, approval_role = ''manager'', approval_status = ''approved'',
           comment = [], approval_date = 2000\<rparr>]"
  using
    addApproval_appends_then_derives
      [of 102 "''manager''" "''approved''" None 2000
          "sample_advance 11 ''ADV2026110002'' 101 ''pending'' ''office supplies''"]
    addApproval_appends_then_derives
      [of 103 "''finance''" "''approved''" None 2000
          "sample_advance 11 ''ADV2026110002'' 101 ''manager_approved'' ''office supplies''"]
    addApproval_appends_then_derives
      [of 103 "''finance''" "''rejected''" "Some '' no budget ''" 2000
          "sample_advance 11 ''ADV2026110002'' 101 ''manager_approved'' ''office supplies''"]
  by (simp add: Let_def sample_advance_def addApproval_def updateMainStatus_def pushApproval_def
      trim_def is_space_def)

section \<open>The admin role at the approve route\<close>

text \<open>
  C10. For every advance in every status, an approval or rejection that an
  authenticated admin submits through the approve route passes the role gate
  \<open>canApprove\<close> and then fails with the cannot-be-approved-at-this-stage error,
  leaving the collection unchanged.
\<close>

theorem admin_approval_always_fails:
  assumes "user_role u = ''admin''" and "st = ''approved'' \<or> st = ''rejected''"
    and "findById store i = Some a"
  shows "canApprove u = None \<and> \<not> canBeApprovedBy a (user_role u) \<and>
         approve_route u i st c now store =
           (Failure 400 (''This request cannot be '' @ st @ '' at this stage''), store)"
  using assms by (auto simp: approve_route_def canApprove_def authorize_def canBeApprovedBy_def)

theorem admin_approval_always_fails_witness:
  "user_role (sample_user 104 ''dayo'' ''admin'') = ''admin''
   \<and> findById (advances sample_system) 11
       = Some (sample_advance 11 ''ADV2026110002'' 101 ''pending'' ''office supplies'')
   \<and> canApprove (sample_user 104 ''dayo'' ''admin'') = None
   \<and> approve_route (sample_user 104 ''dayo'' ''admin'') 11 ''approved'' None 2000
        (advances sample_system)
       = (Failure 400 ''This request cannot be approved at this stage'', advances sample_system)"
proof -
  have h1: "user_role (sample_user 104 ''dayo'' ''admin'') = ''admin''"
    by (simp add: sample_user_def)
  have h2: "''approved'' = ''approved'' \<or> ''approved'' = ''rejected''" by simp
  have h3: "findById (advances sample_system) 11
       = Some (sample_advance 11 ''ADV2026110002'' 101 ''pending'' ''office supplies'')"
    by (simp add: findById_def sample_system_def sample_advance_def)
  from admin_approval_always_fails [OF h1 h2 h3] h1 h3 show ?thesis by simp
qed

section \<open>Terminal states\<close>

lemma map_ca_id_save_cash: "map ca_id (save_cash a store) = map ca_id store"
  by (induction store) (auto simp: save_cash_def)

lemma save_cash_keeps: "a \<in> set store \<Longrightarrow> ca_id a \<noteq> ca_id a' \<Longrightarrow> a \<in> set (save_cash a' store)"
  by (force simp: save_cash_def)

lemma distinct_ca_id_eq:
  "distinct (map ca_id store) \<Longrightarrow> a \<in> set store \<Longrightarrow> d \<in> set store \<Longrightarrow> ca_id a = ca_id d \<Longrightarrow> a = d"
  by (meson distinct_map inj_onD)

lemma find_Some_set: "find P xs = Some d \<Longrightarrow> d \<in> set xs \<and> P d"
  by (induction xs) (auto split: if_splits)

lemma retire_route_cases:
  "retire_route vr u i body now store = (r, store') \<Longrightarrow>
     (\<not> is_success r \<and> store' = store) \<or>
     (\<exists>d info. d \<in> set store \<and> ca_id d = i \<and> ca_user d = user_id u \<and> ca_status d = ''approved'' \<and>
          is_success r \<and>
          store' = save_cash (d\<lparr>ca_status := ''retired'', ca_retirement := Some info\<rparr>) store)"
  by (fastforce simp: retire_route_def cash_save_def Let_def split: option.splits if_splits dest!: find_Some_set)

lemma manager_approve_route_cases:
  "manager_approve_route us u i store = (r, store') \<Longrightarrow>
     (\<not> is_success r \<and> store' = store) \<or>
     (\<exists>d. d \<in> set store \<and> ca_id d = i \<and> ca_status d = ''pending'' \<and>
          is_success r \<and>
          store' = save_cash (d\<lparr>ca_status := ''approved'', approvedBy := Some (user_id u)\<rparr>) store)"
  by (fastforce simp: manager_approve_route_def cash_save_def Let_def split: option.splits if_splits dest!: find_Some_set)

lemma manager_reject_route_cases:
  "manager_reject_route us u i reason store = (r, store') \<Longrightarrow>
     (\<not> is_success r \<and> store' = store) \<or>
     (\<exists>d x. d \<in> set store \<and> ca_id d = i \<and> ca_status d = ''pending'' \<and>
          is_success r \<and>
          store' = save_cash (d\<lparr>ca_status := ''rejected'', rejectedReason := Some x\<rparr>) store)"
  by (fastforce simp: manager_reject_route_def cash_save_def Let_def split: option.splits if_splits dest!: find_Some_set)

lemma approve_route_keeps_terminal:
  assumes "distinct (map oid store)" and "a \<in> set store"
    and "status a = ''rejected'' \<or> status a = ''retired''"
  shows "a \<in> set (snd (approve_route u i st c now store))"
proof -
  obtain r store' where eq: "approve_route u i st c now store = (r, store')"
    by (cases "approve_route u i st c now store")
  from approve_route_cases [OF eq] show ?thesis
  proof
    assume "\<not> is_success r \<and> store' = store"
    with eq assms show ?thesis by simp
  next
    assume "\<exists>d. findById store i = Some d \<and> canBeApprovedBy d (user_role u) \<and>
          is_success r \<and> store' = save_advance (addApproval d (user_id u) (user_role u) st c now) store"
    then obtain d where d: "findById store i = Some d" "canBeApprovedBy d (user_role u)"
      and st': "store' = save_advance (addApproval d (user_id u) (user_role u) st c now) store"
      by blast
    from d(2) assms(3) have "a \<noteq> d" by (auto simp: canBeApprovedBy_def)
    moreover from d(1) have "d \<in> set store" by (simp add: findById_SomeD)
    ultimately have "oid a \<noteq> oid d" using distinct_oid_eq [OF assms(1) assms(2)] by blast
    then have "a \<in> set store'"
      unfolding st' using assms(2) by (intro save_advance_keeps) (simp_all add: oid_addApproval)
    with eq show ?thesis by simp
  qed
qed

lemma disburse_route_keeps_terminal:
  assumes "distinct (map oid store)" and "a \<in> set store"
    and "status a = ''rejected'' \<or> status a = ''retired''"
  shows "a \<in> set (snd (disburse_route u i body now store))"
proof -
  obtain r store' where eq: "disburse_route u i body now store = (r, store')"
    by (cases "disburse_route u i body now store")
  from disburse_route_cases [OF eq] show ?thesis
  proof
    assume "\<not> is_success r \<and> store' = store"
    with eq assms show ?thesis by simp
  next
    assume "\<exists>d info. findById store i = Some d \<and> status d = ''finance_approved'' \<and>
          is_success r \<and>
          store' = save_advance (d\<lparr>disbursement := Some info, status := ''disbursed''\<rparr>) store"
    then obtain d info where d: "findById store i = Some d" "status d = ''finance_approved''"
      and st': "store' = save_advance (d\<lparr>disbursement := Some info, status := ''disbursed''\<rparr>) store"
      by blast
    from d(2) assms(3) have "a \<noteq> d" by auto
    moreover from d(1) have "d \<in> set store" by (simp add: findById_SomeD)
    ultimately have "oid a \<noteq> oid d" using distinct_oid_eq [OF assms(1) assms(2)] by blast
    then have "a \<in> set store'"
      unfolding st' using assms(2) by (intro save_advance_keeps) simp_all
    with eq show ?thesis by simp
  qed
qed

lemma cash_routes_keep_terminal:
  assumes "distinct (map ca_id store)" and "b \<in> set store"
    and "ca_status b = ''rejected'' \<or> ca_status b = ''retired''"
  shows "b \<in> set (snd (retire_route vr u i body now store))"
    and "b \<in> set (snd (manager_approve_route us u i store))"
    and "b \<in> set (snd (manager_reject_route us u i reason store))"
proof -
  have keep: "b \<in> set (save_cash d' store)"
    if "d \<in> set store" "ca_status d = ''approved'' \<or> ca_status d = ''pending''" "ca_id d' = ca_id d"
    for d d'
  proof -
    from that(2) assms(3) have "b \<noteq> d" by auto
    then have "ca_id b \<noteq> ca_id d" using distinct_ca_id_eq [OF assms(1) assms(2) that(1)] by blast
    then show ?thesis using assms(2) that(3) by (intro save_cash_keeps) simp_all
  qed
  show "b \<in> set (snd (retire_route vr u i body now store))"
    using retire_route_cases [of vr u i body now store] assms(2) keep
    by (cases "retire_route vr u i body now store") fastforce
  show "b \<in> set (snd (manager_approve_route us u i store))"
    using manager_approve_route_cases [of us u i store] assms(2) keep
    by (cases "manager_approve_route us u i store") fastforce
  show "b \<in> set (snd (manager_reject_route us u i reason store))"
    using manager_reject_route_cases [of us u i reason store] assms(2) keep
    by (cases "manager_reject_route us u i reason store") fastforce
qed

lemma findById_mem:
  "distinct (map oid store) \<Longrightarrow> a \<in> set store \<Longrightarrow> findById store (oid a) = Some a"
  unfolding findById_def by (induction store) auto

lemma find_cash_absent:
  "ca_id b \<notin> ca_id ` set store \<Longrightarrow> find (\<lambda>d. ca_id d = ca_id b \<and> P d) store = None"
  by (induction store) auto

lemma find_cash_mem:
  "distinct (map ca_id store) \<Longrightarrow> b \<in> set store \<Longrightarrow>
     find (\<lambda>d. ca_id d = ca_id b \<and> P d) store = (if P b then Some b else None)"
proof (induction store)
  case Nil
  then show ?case by simp
next
  case (Cons x xs)
  show ?case
  proof (cases "x = b")
    case True
    with Cons.prems(1) have "ca_id b \<notin> ca_id ` set xs" by simp
    then have "find (\<lambda>d. ca_id d = ca_id b \<and> P d) xs = None" by (rule find_cash_absent)
    with True show ?thesis by simp
  next
    case False
    with Cons.prems have "b \<in> set xs" and "ca_id x \<noteq> ca_id b" by auto
    with Cons.IH Cons.prems(1) show ?thesis by simp
  qed
qed

lemma handle_ids:
  "map oid (advances (snd (handle vr r s))) = map oid (advances s) \<and>
   map ca_id (cashAdvances (snd (handle vr r s))) = map ca_id (cashAdvances s)"
proof (cases r)
  case (Approve u i st c now)
  obtain x store' where eq: "approve_route u i st c now (advances s) = (x, store')"
    by (cases "approve_route u i st c now (advances s)")
  from approve_route_cases [OF eq] eq Approve show ?thesis
    by (auto simp: map_oid_save_advance)
next
  case (Disburse u i body now)
  obtain x store' where eq: "disburse_route u i body now (advances s) = (x, store')"
    by (cases "disburse_route u i body now (advances s)")
  from disburse_route_cases [OF eq] eq Disburse show ?thesis
    by (auto simp: map_oid_save_advance)
next
  case (Retire u i body now)
  obtain x store' where eq: "retire_route vr u i body now (cashAdvances s) = (x, store')"
    by (cases "retire_route vr u i body now (cashAdvances s)")
  from retire_route_cases [OF eq] eq Retire show ?thesis
    by (auto simp: map_ca_id_save_cash)
next
  case (ManagerApprove u i)
  obtain x store' where eq: "manager_approve_route (users s) u i (cashAdvances s) = (x, store')"
    by (cases "manager_approve_route (users s) u i (cashAdvances s)")
  from manager_approve_route_cases [OF eq] eq ManagerApprove show ?thesis
    by (auto simp: map_ca_id_save_cash)
next
  case (ManagerReject u i reason)
  obtain x store' where eq: "manager_reject_route (users s) u i reason (cashAdvances s) = (x, store')"
    by (cases "manager_reject_route (users s) u i reason (cashAdvances s)")
  from manager_reject_route_cases [OF eq] eq ManagerReject show ?thesis
    by (auto simp: map_ca_id_save_cash)
qed

lemma handle_keeps_terminal_advance:
  assumes "distinct (map oid (advances s))" and "a \<in> set (advances s)"
    and "status a = ''rejected'' \<or> status a = ''retired''"
  shows "a \<in> set (advances (snd (handle vr r s)))"
proof (cases r)
  case (Approve u i st c now)
  with approve_route_keeps_terminal [OF assms, of u i st c now] show ?thesis
    by (simp add: case_prod_unfold Let_def)
next
  case (Disburse u i body now)
  with disburse_route_keeps_terminal [OF assms, of u i body now] show ?thesis
    by (simp add: case_prod_unfold Let_def)
qed (use assms(2) in \<open>simp_all add: case_prod_unfold Let_def\<close>)

lemma handle_keeps_terminal_cash:
  assumes "distinct (map ca_id (cashAdvances s))" and "b \<in> set (cashAdvances s)"
    and "ca_status b = ''rejected'' \<or> ca_status b = ''retired''"
  shows "b \<in> set (cashAdvances (snd (handle vr r s)))"
proof (cases r)
  case (Retire u i body now)
  with cash_routes_keep_terminal(1) [OF assms, of vr u i body now] show ?thesis
    by (simp add: case_prod_unfold Let_def)
next
  case (ManagerApprove u i)
  with cash_routes_keep_terminal(2) [OF assms, of "users s" u i] show ?thesis
    by (simp add: case_prod_unfold Let_def)
next
  case (ManagerReject u i reason)
  with cash_routes_keep_terminal(3) [OF assms, of "users s" u i reason] show ?thesis
    by (simp add: case_prod_unfold Let_def)
qed (use assms(2) in \<open>simp_all add: case_prod_unfold Let_def\<close>)

lemma run_keeps_terminal_advance:
  "distinct (map oid (advances s)) \<Longrightarrow> a \<in> set (advances s) \<Longrightarrow>
   status a = ''rejected'' \<or> status a = ''retired'' \<Longrightarrow> a \<in> set (advances (run vr reqs s))"
proof (induction reqs arbitrary: s)
  case Nil
  then show ?case by simp
next
  case (Cons r reqs)
  have "distinct (map oid (advances (snd (handle vr r s))))"
    using Cons.prems(1) handle_ids [of vr r s] by simp
  moreover have "a \<in> set (advances (snd (handle vr r s)))"
    using Cons.prems by (rule handle_keeps_terminal_advance)
  ultimately show ?case using Cons.IH Cons.prems(3) by simp
qed

lemma run_keeps_terminal_cash:
  "distinct (map ca_id (cashAdvances s)) \<Longrightarrow> b \<in> set (cashAdvances s) \<Longrightarrow>
   ca_status b = ''rejected'' \<or> ca_status b = ''retired'' \<Longrightarrow>
   b \<in> set (cashAdvances (run vr reqs s))"
proof (induction reqs arbitrary: s)
  case Nil
  then show ?case by simp
next
  case (Cons r reqs)
  have "distinct (map ca_id (cashAdvances (snd (handle vr r s))))"
    using Cons.prems(1) handle_ids [of vr r s] by simp
  moreover have "b \<in> set (cashAdvances (snd (handle vr r s)))"
    using Cons.prems by (rule handle_keeps_terminal_cash)
  ultimately show ?case using Cons.IH Cons.prems(3) by simp
qed

lemma approve_terminal_fails:
  assumes "findById store i = Some a" and "status a = ''rejected'' \<or> status a = ''retired''"
  shows "approve_route u i st c now store =
           (case canApprove u of
              Some (k, m) \<Rightarrow> (Failure k m, store)
            | None \<Rightarrow>
                if st \<notin> set [''approved'', ''rejected'']
                then (Failure 400
                        (''Status must be either '' @ [CHR 0x22] @ ''approved'' @ [CHR 0x22]
                           @ '' or '' @ [CHR 0x22] @ ''rejected'' @ [CHR 0x22]), store)
                else (Failure 400 (''This request cannot be '' @ st @ '' at this stage''), store))"
  using assms by (auto simp: approve_route_def canBeApprovedBy_def split: option.splits)

lemma disburse_not_finance_approved_fails:
  assumes "findById store i = Some a" and "status a \<noteq> ''finance_approved''"
  shows "disburse_route u i body now store =
           (case authorize [''finance'', ''admin''] u of
              Some (k, m) \<Rightarrow> (Failure k m, store)
            | None \<Rightarrow>
                (Failure 400 ''Advance must be finance approved before disbursement'', store))"
  using assms by (auto simp: disburse_route_def split: option.splits)

lemma retire_not_approved_fails:
  assumes "find (\<lambda>d. ca_id d = i \<and> ca_user d = user_id u) store = Some b"
    and "ca_status b \<noteq> ''approved''"
  shows "retire_route vr u i body now store =
           (if \<not> vr body then (Failure 400 ''Validation error'', store)
            else (Failure 400 ''Only approved advances can be retired'', store))"
  using assms by (auto simp: retire_route_def)

text \<open>
  C2. Once the status of an advance is rejected or retired, no lifecycle operation
  succeeds on it: the guard is false for every role, every approve or reject attempt
  and every disburse attempt on it fails and leaves the collection as it was, every
  retire attempt on a rejected or retired request fails, and after any sequence of
  lifecycle requests the document is still in its collection, unchanged.
\<close>

theorem terminal_states_are_absorbing:
  assumes "distinct (map oid (advances s))" and "distinct (map ca_id (cashAdvances s))"
  shows
    "(a \<in> set (advances s) \<and> (status a = ''rejected'' \<or> status a = ''retired'') \<longrightarrow>
        \<not> canBeApprovedBy a r
      \<and> approve_route u (oid a) st c now (advances s) =
          (case canApprove u of
             Some (k, m) \<Rightarrow> (Failure k m, advances s)
           | None \<Rightarrow>
               if st \<notin> set [''approved'', ''rejected'']
               then (Failure 400
                       (''Status must be either '' @ [CHR 0x22] @ ''approved'' @ [CHR 0x22]
                          @ '' or '' @ [CHR 0x22] @ ''rejected'' @ [CHR 0x22]), advances s)
               else (Failure 400 (''This request cannot be '' @ st @ '' at this stage''),
                     advances s))
      \<and> disburse_route u (oid a) dbody now (advances s) =
          (case authorize [''finance'', ''admin''] u of
             Some (k, m) \<Rightarrow> (Failure k m, advances s)
           | None \<Rightarrow>
               (Failure 400 ''Advance must be finance approved before disbursement'',
                advances s))
      \<and> a \<in> set (advances (run vr reqs s)))
   \<and> (b \<in> set (cashAdvances s) \<and> (ca_status b = ''rejected'' \<or> ca_status b = ''retired'') \<longrightarrow>
        retire_route vr u (ca_id b) rbody now (cashAdvances s) =
          (if \<not> vr rbody then (Failure 400 ''Validation error'', cashAdvances s)
           else if ca_user b = user_id u
           then (Failure 400 ''Only approved advances can be retired'', cashAdvances s)
           else (Failure 404 ''Cash advance request not found'', cashAdvances s))
      \<and> b \<in> set (cashAdvances (run vr reqs s)))"
proof (intro conjI impI)
  assume a: "a \<in> set (advances s) \<and> (status a = ''rejected'' \<or> status a = ''retired'')"
  then have f: "findById (advances s) (oid a) = Some a"
    using assms(1) by (simp add: findById_mem)
  from a show "\<not> canBeApprovedBy a r" by (auto simp: canBeApprovedBy_def)
  from a f show "approve_route u (oid a) st c now (advances s) =
          (case canApprove u of
             Some (k, m) \<Rightarrow> (Failure k m, advances s)
           | None \<Rightarrow>
               if st \<notin> set [''approved'', ''rejected'']
               then (Failure 400
                       (''Status must be either '' @ [CHR 0x22] @ ''approved'' @ [CHR 0x22]
                          @ '' or '' @ [CHR 0x22] @ ''rejected'' @ [CHR 0x22]), advances s)
               else (Failure 400 (''This request cannot be '' @ st @ '' at this stage''),
                     advances s))"
    by (intro approve_terminal_fails) blast+
  from a have "status a \<noteq> ''finance_approved''" by auto
  with f show "disburse_route u (oid a) dbody now (advances s) =
          (case authorize [''finance'', ''admin''] u of
             Some (k, m) \<Rightarrow> (Failure k m, advances s)
           | None \<Rightarrow>
               (Failure 400 ''Advance must be finance approved before disbursement'',
                advances s))"
    by (rule disburse_not_finance_approved_fails)
  from a show "a \<in> set (advances (run vr reqs s))"
    using assms(1) by (intro run_keeps_terminal_advance) simp_all
next
  assume b: "b \<in> set (cashAdvances s) \<and> (ca_status b = ''rejected'' \<or> ca_status b = ''retired'')"
  then have f: "find (\<lambda>d. ca_id d = ca_id b \<and> ca_user d = user_id u) (cashAdvances s)
                  = (if ca_user b = user_id u then Some b else None)"
    using assms(2) by (simp add: find_cash_mem)
  from b have "ca_status b \<noteq> ''approved''" by auto
  with f show "retire_route vr u (ca_id b) rbody now (cashAdvances s) =
          (if \<not> vr rbody then (Failure 400 ''Validation error'', cashAdvances s)
           else if ca_user b = user_id u
           then (Failure 400 ''Only approved advances can be retired'', cashAdvances s)
           else (Failure 404 ''Cash advance request not found'', cashAdvances s))"
    by (auto simp: retire_route_def)
  from b show "b \<in> set (cashAdvances (run vr reqs s))"
    using assms(2) by (intro run_keeps_terminal_cash) simp_all
qed

theorem terminal_states_are_absorbing_witness:
  "distinct (map oid (advances sample_system))
   \<and> distinct (map ca_id (cashAdvances sample_system))
   \<and> sample_advance 10 ''ADV2026110001'' 101 ''rejected'' ''travel reimbursement''
        \<in> set (advances sample_system)
   \<and> sample_cash 20 101 ''retired'' \<in> set (cashAdvances sample_system)
   \<and> sample_advance 10 ''ADV2026110001'' 101 ''rejected'' ''travel reimbursement''
        \<in> set (advances (run (\<lambda>b. True) sample_requests sample_system))
   \<and> sample_cash 20 101 ''retired''
        \<in> set (cashAdvances (run (\<lambda>b. True) sample_requests sample_system))
   \<and> disburse_route (sample_user 103 ''chidi'' ''finance'') 10 sample_disburse_body 3000
        (advances sample_system)
       = (Failure 400 ''Advance must be finance approved before disbursement'',
          advances sample_system)
   \<and> retire_route (\<lambda>b. True) (sample_user 101 ''ada'' ''staff'') 20 sample_retire_body 4000
        (cashAdvances sample_system)
       = (Failure 400 ''Only approved advances can be retired'', cashAdvances sample_system)"
proof -
  have d1: "distinct (map oid (advances sample_system))"
    by (simp add: sample_system_def sample_advance_def)
  have d2: "distinct (map ca_id (cashAdvances sample_system))"
    by (simp add: sample_system_def sample_cash_def)
  have a: "sample_advance 10 ''ADV2026110001'' 101 ''rejected'' ''travel reimbursement''
             \<in> set (advances sample_system)
           \<and> (status (sample_advance 10 ''ADV2026110001'' 101 ''rejected'' ''travel reimbursement'')
                 = ''rejected''
              \<or> status (sample_advance 10 ''ADV2026110001'' 101 ''rejected'' ''travel reimbursement'')
                 = ''retired'')"
    by (simp add: sample_system_def sample_advance_def)
  have b: "sample_cash 20 101 ''retired'' \<in> set (cashAdvances sample_system)
           \<and> (ca_status (sample_cash 20 101 ''retired'') = ''rejected''
              \<or> ca_status (sample_cash 20 101 ''retired'') = ''retired'')"
    by (simp add: sample_system_def sample_cash_def)
  have au: "authorize [''finance'', ''admin''] (sample_user 103 ''chidi'' ''finance'') = None"
    by (simp add: authorize_def sample_user_def)
  have ids: "oid (sample_advance 10 ''ADV2026110001'' 101 ''rejected'' ''travel reimbursement'') = 10"
    "ca_id (sample_cash 20 101 ''retired'') = 20"
    "ca_user (sample_cash 20 101 ''retired'') = user_id (sample_user 101 ''ada'' ''staff'')"
    by (simp_all add: sample_advance_def sample_cash_def sample_user_def)
  note t = terminal_states_are_absorbing [OF d1 d2,
      where a = "sample_advance 10 ''ADV2026110001'' 101 ''rejected'' ''travel reimbursement''"
        and b = "sample_cash 20 101 ''retired''" and vr = "\<lambda>b. True"
        and reqs = sample_requests and u = "sample_user 103 ''chidi'' ''finance''"
        and dbody = sample_disburse_body and now = 3000]
  from t a au ids(1) have
    "disburse_route (sample_user 103 ''chidi'' ''finance'') 10 sample_disburse_body 3000
        (advances sample_system)
       = (Failure 400 ''Advance must be finance approved before disbursement'',
          advances sample_system)"
    and "sample_advance 10 ''ADV2026110001'' 101 ''rejected'' ''travel reimbursement''
        \<in> set (advances (run (\<lambda>b. True) sample_requests sample_system))"
    by simp_all
  moreover
  note t2 = terminal_states_are_absorbing [OF d1 d2,
      where a = "sample_advance 10 ''ADV2026110001'' 101 ''rejected'' ''travel reimbursement''"
        and b = "sample_cash 20 101 ''retired''" and vr = "\<lambda>b. True"
        and reqs = sample_requests and u = "sample_user 101 ''ada'' ''staff''"
        and rbody = sample_retire_body and now = 4000]
  from t2 b ids(2,3) have
    "retire_route (\<lambda>b. True) (sample_user 101 ''ada'' ''staff'') 20 sample_retire_body 4000
        (cashAdvances sample_system)
       = (Failure 400 ''Only approved advances can be retired'', cashAdvances sample_system)"
    and "sample_cash 20 101 ''retired''
        \<in> set (cashAdvances (run (\<lambda>b. True) sample_requests sample_system))"
    by simp_all
  ultimately show ?thesis using d1 d2 a b by blast
qed

lemma save_advance_same_id:
  "d \<in> set (save_advance a' store) \<Longrightarrow> oid d = oid a' \<Longrightarrow> d = a'"
  by (auto simp: save_advance_def split: if_splits)

lemma save_cash_same_id:
  "d \<in> set (save_cash b' store) \<Longrightarrow> ca_id d = ca_id b' \<Longrightarrow> d = b'"
  by (auto simp: save_cash_def split: if_splits)

lemma find_save_cash:
  assumes "find (\<lambda>d. ca_id d = i \<and> ca_user d = w) store = Some b"
    and "ca_id b' = ca_id b" and "ca_user b' = ca_user b"
  shows "find (\<lambda>d. ca_id d = i \<and> ca_user d = w) (save_cash b' store) = Some b'"
proof -
  from assms(1) have b: "ca_id b = i" "ca_user b = w" by (auto dest: find_Some_set)
  from assms(1) show ?thesis
  proof (induction store)
    case Nil
    then show ?case by simp
  next
    case (Cons x xs)
    show ?case
    proof (cases "ca_id x = i")
      case True
      then show ?thesis using assms(2,3) b by (simp add: save_cash_def)
    next
      case False
      with Cons.prems have "find (\<lambda>d. ca_id d = i \<and> ca_user d = w) xs = Some b" by simp
      from Cons.IH [OF this] False assms(2) b show ?thesis by (simp add: save_cash_def)
    qed
  qed
qed

lemma filter_save_cash:
  "ca_id b' = i \<Longrightarrow>
     filter (\<lambda>d. ca_id d \<noteq> i) (save_cash b' store) = filter (\<lambda>d. ca_id d \<noteq> i) store"
  unfolding save_cash_def by (induction store) auto

lemma length_save_cash: "length (save_cash b' store) = length store"
  by (simp add: save_cash_def)

lemma validate_advance_disbursed:
  assumes "validate_advance a" and "m \<in> set [''cash'', ''bank_transfer'', ''check'']"
  shows "validate_advance
           (a\<lparr>disbursement := Some
                 \<lparr>disbursedBy = w, disbursedDate = t, disbursedAmount = x,
                  payment_method = m, reference = rf\<rparr>,
              status := ''disbursed''\<rparr>)"
  using assms by (simp add: validate_advance_def)

lemma validate_cash_retired:
  assumes "validate_cash b"
  shows "validate_cash (b\<lparr>ca_status := ''retired'', ca_retirement := Some info\<rparr>)"
  using assms by (simp add: validate_cash_def)

lemma disburse_success_store:
  assumes "is_success (fst (disburse_route u i body now store))"
  shows "\<exists>x. findById store i = Some x \<and> status x = ''finance_approved''
           \<and> snd (disburse_route u i body now store) =
               save_advance
                 (x\<lparr>disbursement := Some
                       \<lparr>disbursedBy = user_id u, disbursedDate = now,
                        disbursedAmount = js_or_num (body_disbursedAmount body) (amount x),
                        payment_method = js_or_str (body_method body) ''cash'',
                        reference = body_reference body\<rparr>,
                    status := ''disbursed''\<rparr>) store"
  using assms
  by (auto simp: disburse_route_def advance_save_def Let_def split: option.splits if_splits)

lemma retire_success_store:
  assumes "is_success (fst (retire_route vr u i body now store))"
  shows "\<exists>x. find (\<lambda>d. ca_id d = i \<and> ca_user d = user_id u) store = Some x
           \<and> ca_status x = ''approved''
           \<and> snd (retire_route vr u i body now store) =
               save_cash
                 (x\<lparr>ca_status := ''retired'',
                    ca_retirement := Some
                      \<lparr>retirementDate = body_retirementDate body,
                       totalExpenses = body_totalExpenses body,
                       expenseBreakdown = body_expenseBreakdown body,
                       retiredAt = now\<rparr>\<rparr>) store"
  using assms
  by (auto simp: retire_route_def cash_save_def Let_def split: option.splits if_splits)

lemma disburse_repeat_fails:
  assumes "oid a' = i" and "status a' = ''disbursed''"
  shows "\<not> is_success (fst (disburse_route u i body now (save_advance a' store))) \<and>
         snd (disburse_route u i body now (save_advance a' store)) = save_advance a' store"
proof -
  obtain r store' where eq: "disburse_route u i body now (save_advance a' store) = (r, store')"
    by (cases "disburse_route u i body now (save_advance a' store)")
  have "\<not> (\<exists>d. findById (save_advance a' store) i = Some d \<and> status d = ''finance_approved'')"
  proof
    assume "\<exists>d. findById (save_advance a' store) i = Some d \<and> status d = ''finance_approved''"
    then obtain d where d: "findById (save_advance a' store) i = Some d"
      and fin: "status d = ''finance_approved''" by blast
    from d have "d \<in> set (save_advance a' store)" and "oid d = oid a'"
      using assms(1) by (simp_all add: findById_SomeD)
    then have "d = a'" by (rule save_advance_same_id)
    with fin assms(2) show False by simp
  qed
  with disburse_route_cases [OF eq] eq show ?thesis by auto
qed

lemma retire_repeat_fails:
  assumes "ca_id b' = i" and "ca_status b' = ''retired''"
  shows "\<not> is_success (fst (retire_route vr u i body now (save_cash b' store))) \<and>
         snd (retire_route vr u i body now (save_cash b' store)) = save_cash b' store"
proof -
  obtain r store' where eq: "retire_route vr u i body now (save_cash b' store) = (r, store')"
    by (cases "retire_route vr u i body now (save_cash b' store)")
  have "\<not> (\<exists>d. d \<in> set (save_cash b' store) \<and> ca_id d = i \<and> ca_status d = ''approved'')"
  proof
    assume "\<exists>d. d \<in> set (save_cash b' store) \<and> ca_id d = i \<and> ca_status d = ''approved''"
    then obtain d where d: "d \<in> set (save_cash b' store)" "ca_id d = i"
      and ap: "ca_status d = ''approved''" by blast
    from d assms(1) have "d = b'" by (intro save_cash_same_id) simp_all
    with ap assms(2) show False by simp
  qed
  with retire_route_cases [OF eq] eq show ?thesis by auto
qed

lemma disburse_succeeds:
  assumes "findById store i = Some a" and "status a = ''finance_approved''"
    and "authorize [''finance'', ''admin''] u = None"
    and "validate_advance a"
    and "js_or_str (body_method body) ''cash'' \<in> set [''cash'', ''bank_transfer'', ''check'']"
  shows "disburse_route u i body now store =
           (Success 200 ''Cash advance disbursed successfully''
              (a\<lparr>disbursement := Some
                    \<lparr>disbursedBy = user_id u, disbursedDate = now,
                     disbursedAmount = js_or_num (body_disbursedAmount body) (amount a),
                     payment_method = js_or_str (body_method body) ''cash'',
                     reference = body_reference body\<rparr>,
                 status := ''disbursed''\<rparr>),
            save_advance
              (a\<lparr>disbursement := Some
                    \<lparr>disbursedBy = user_id u, disbursedDate = now,
                     disbursedAmount = js_or_num (body_disbursedAmount body) (amount a),
                     payment_method = js_or_str (body_method body) ''cash'',
                     reference = body_reference body\<rparr>,
                 status := ''disbursed''\<rparr>) store)"
  using assms(1,2,3) validate_advance_disbursed [OF assms(4,5)]
  by (simp add: disburse_route_def advance_save_def Let_def)

lemma disburse_unknown_method_fails:
  assumes "findById store i = Some a" and "status a = ''finance_approved''"
    and "authorize [''finance'', ''admin''] u = None"
    and "js_or_str (body_method body) ''cash'' \<notin> set [''cash'', ''bank_transfer'', ''check'']"
  shows "disburse_route u i body now store = (Failure 500 ''Error disbursing advance'', store)"
  using assms
  by (simp add: disburse_route_def advance_save_def validate_advance_def Let_def)

lemma retire_succeeds:
  assumes "find (\<lambda>d. ca_id d = i \<and> ca_user d = user_id u) store = Some b"
    and "ca_status b = ''approved''" and "vr body" and "validate_cash b"
  shows "retire_route vr u i body now store =
           (Success 200 ''Cash advance retired successfully''
              (b\<lparr>ca_status := ''retired'',
                 ca_retirement := Some
                   \<lparr>retirementDate = body_retirementDate body,
                    totalExpenses = body_totalExpenses body,
                    expenseBreakdown = body_expenseBreakdown body,
                    retiredAt = now\<rparr>\<rparr>),
            save_cash
              (b\<lparr>ca_status := ''retired'',
                 ca_retirement := Some
                   \<lparr>retirementDate = body_retirementDate body,
                    totalExpenses = body_totalExpenses body,
                    expenseBreakdown = body_expenseBreakdown body,
                    retiredAt = now\<rparr>\<rparr>) store)"
  using assms(1,2,3) validate_cash_retired [OF assms(4)]
  by (simp add: retire_route_def cash_save_def Let_def)

section \<open>Disbursement and retirement\<close>

text \<open>
  C6. Disbursement succeeds only when the status is exactly finance_approved, and then
  the document stored under the identifier is the old one with the status disbursed and
  the disbursement recorded, every other document being as it was; retirement succeeds
  only from the approved stage, and then the stored document is the old one with the
  status retired and the retirement recorded, every other document being as it was. On
  a finance_approved document that the validators of the schema accept, a finance or
  admin user's disbursement with a payment method of the schema's list (cash when the
  body names none) does succeed, and so does the owner's retirement of an approved
  request. An attempt from any other status, a repeat of the transition included,
  returns the domain error and leaves the collection unchanged; a disbursement that
  names a payment method outside the list is answered with 500, and every attempt that
  does not succeed, whatever the reason, leaves the collection unchanged.
\<close>

theorem disburse_and_retire_guards:
  "(is_success (fst (disburse_route u i body now store)) \<longrightarrow>
      (\<exists>x. findById store i = Some x \<and> status x = ''finance_approved''
         \<and> findById (snd (disburse_route u i body now store)) i =
             Some (x\<lparr>disbursement := Some
                       \<lparr>disbursedBy = user_id u, disbursedDate = now,
                        disbursedAmount = js_or_num (body_disbursedAmount body) (amount x),
                        payment_method = js_or_str (body_method body) ''cash'',
                        reference = body_reference body\<rparr>,
                     status := ''disbursed''\<rparr>)
         \<and> filter (\<lambda>d. oid d \<noteq> i) (snd (disburse_route u i body now store))
             = filter (\<lambda>d. oid d \<noteq> i) store
         \<and> length (snd (disburse_route u i body now store)) = length store))
   \<and> (findById store i = Some a \<and> status a = ''finance_approved''
        \<and> authorize [''finance'', ''admin''] u = None \<and> validate_advance a
        \<and> js_or_str (body_method body) ''cash'' \<in> set [''cash'', ''bank_transfer'', ''check'']
      \<longrightarrow>
        (let a' = a\<lparr>disbursement := Some
                      \<lparr>disbursedBy = user_id u, disbursedDate = now,
                       disbursedAmount = js_or_num (body_disbursedAmount body) (amount a),
                       payment_method = js_or_str (body_method body) ''cash'',
                       reference = body_reference body\<rparr>,
                    status := ''disbursed''\<rparr>
         in disburse_route u i body now store =
              (Success 200 ''Cash advance disbursed successfully'' a', save_advance a' store)
            \<and> findById (save_advance a' store) i = Some a'
            \<and> status a' = ''disbursed''
            \<and> \<not> is_success (fst (disburse_route u2 i body2 now2 (save_advance a' store)))
            \<and> snd (disburse_route u2 i body2 now2 (save_advance a' store))
                = save_advance a' store))
   \<and> (findById store i = Some a \<and> status a = ''finance_approved''
        \<and> authorize [''finance'', ''admin''] u = None
        \<and> js_or_str (body_method body) ''cash'' \<notin> set [''cash'', ''bank_transfer'', ''check'']
      \<longrightarrow>
        disburse_route u i body now store = (Failure 500 ''Error disbursing advance'', store))
   \<and> (findById store i = Some a \<and> status a \<noteq> ''finance_approved'' \<longrightarrow>
        disburse_route u i body now store =
          (case authorize [''finance'', ''admin''] u of
             Some (k, m) \<Rightarrow> (Failure k m, store)
           | None \<Rightarrow>
               (Failure 400 ''Advance must be finance approved before disbursement'', store)))
   \<and> (is_success (fst (retire_route vr u i rbody now cstore)) \<longrightarrow>
        (\<exists>x. find (\<lambda>d. ca_id d = i \<and> ca_user d = user_id u) cstore = Some x
           \<and> ca_status x = ''approved''
           \<and> find (\<lambda>d. ca_id d = i \<and> ca_user d = user_id u)
                (snd (retire_route vr u i rbody now cstore)) =
               Some (x\<lparr>ca_status := ''retired'',
                       ca_retirement := Some
                         \<lparr>retirementDate = body_retirementDate rbody,
                          totalExpenses = body_totalExpenses rbody,
                          expenseBreakdown = body_expenseBreakdown rbody,
                          retiredAt = now\<rparr>\<rparr>)
           \<and> filter (\<lambda>d. ca_id d \<noteq> i) (snd (retire_route vr u i rbody now cstore))
               = filter (\<lambda>d. ca_id d \<noteq> i) cstore
           \<and> length (snd (retire_route vr u i rbody now cstore)) = length cstore))
   \<and> (find (\<lambda>d. ca_id d = i \<and> ca_user d = user_id u) cstore = Some b
        \<and> ca_status b = ''approved'' \<and> vr rbody \<and> validate_cash b \<longrightarrow>
        (let b' = b\<lparr>ca_status := ''retired'',
                    ca_retirement := Some
                      \<lparr>retirementDate = body_retirementDate rbody,
                       totalExpenses = body_totalExpenses rbody,
                       expenseBreakdown = body_expenseBreakdown rbody,
                       retiredAt = now\<rparr>\<rparr>
         in retire_route vr u i rbody now cstore =
              (Success 200 ''Cash advance retired successfully'' b', save_cash b' cstore)
            \<and> find (\<lambda>d. ca_id d = i \<and> ca_user d = user_id u) (save_cash b' cstore) = Some b'
            \<and> ca_status b' = ''retired''
            \<and> \<not> is_success (fst (retire_route vr u2 i rbody2 now2 (save_cash b' cstore)))
            \<and> snd (retire_route vr u2 i rbody2 now2 (save_cash b' cstore))
                = save_cash b' cstore))
   \<and> (find (\<lambda>d. ca_id d = i \<and> ca_user d = user_id u) cstore = Some b
        \<and> ca_status b \<noteq> ''approved'' \<longrightarrow>
        retire_route vr u i rbody now cstore =
          (if \<not> vr rbody then (Failure 400 ''Validation error'', cstore)
           else (Failure 400 ''Only approved advances can be retired'', cstore)))
   \<and> (\<not> is_success (fst (disburse_route u i body now store)) \<longrightarrow>
        snd (disburse_route u i body now store) = store)
   \<and> (\<not> is_success (fst (retire_route vr u i rbody now cstore)) \<longrightarrow>
        snd (retire_route vr u i rbody now cstore) = cstore)"
proof (intro conjI impI)
  show "snd (disburse_route u i body now store) = store"
    if "\<not> is_success (fst (disburse_route u i body now store))"
    using that disburse_route_cases [of u i body now store]
    by (cases "disburse_route u i body now store") auto
  show "snd (retire_route vr u i rbody now cstore) = cstore"
    if "\<not> is_success (fst (retire_route vr u i rbody now cstore))"
    using that retire_route_cases [of vr u i rbody now cstore]
    by (cases "retire_route vr u i rbody now cstore") auto
next
  assume ok: "is_success (fst (disburse_route u i body now store))"
  from disburse_success_store [OF ok] obtain x where
    x: "findById store i = Some x" "status x = ''finance_approved''"
    and s: "snd (disburse_route u i body now store) =
               save_advance
                 (x\<lparr>disbursement := Some
                       \<lparr>disbursedBy = user_id u, disbursedDate = now,
                        disbursedAmount = js_or_num (body_disbursedAmount body) (amount x),
                        payment_method = js_or_str (body_method body) ''cash'',
                        reference = body_reference body\<rparr>,
                    status := ''disbursed''\<rparr>) store"
    by blast
  from x(1) have "oid x = i" by (simp add: findById_SomeD)
  with x show "\<exists>x. findById store i = Some x \<and> status x = ''finance_approved''
         \<and> findById (snd (disburse_route u i body now store)) i =
             Some (x\<lparr>disbursement := Some
                       \<lparr>disbursedBy = user_id u, disbursedDate = now,
                        disbursedAmount = js_or_num (body_disbursedAmount body) (amount x),
                        payment_method = js_or_str (body_method body) ''cash'',
                        reference = body_reference body\<rparr>,
                     status := ''disbursed''\<rparr>)
         \<and> filter (\<lambda>d. oid d \<noteq> i) (snd (disburse_route u i body now store))
             = filter (\<lambda>d. oid d \<noteq> i) store
         \<and> length (snd (disburse_route u i body now store)) = length store"
    unfolding s
    by (intro exI [of _ x] conjI findById_save_advance filter_save_advance
          length_save_advance) simp_all
next
  assume ok: "is_success (fst (retire_route vr u i rbody now cstore))"
  from retire_success_store [OF ok] obtain x where
    x: "find (\<lambda>d. ca_id d = i \<and> ca_user d = user_id u) cstore = Some x"
      "ca_status x = ''approved''"
    and s: "snd (retire_route vr u i rbody now cstore) =
               save_cash
                 (x\<lparr>ca_status := ''retired'',
                    ca_retirement := Some
                      \<lparr>retirementDate = body_retirementDate rbody,
                       totalExpenses = body_totalExpenses rbody,
                       expenseBreakdown = body_expenseBreakdown rbody,
                       retiredAt = now\<rparr>\<rparr>) cstore"
    by blast
  from x(1) have "ca_id x = i" by (auto dest: find_Some_set)
  with x show "\<exists>x. find (\<lambda>d. ca_id d = i \<and> ca_user d = user_id u) cstore = Some x
           \<and> ca_status x = ''approved''
           \<and> find (\<lambda>d. ca_id d = i \<and> ca_user d = user_id u)
                (snd (retire_route vr u i rbody now cstore)) =
               Some (x\<lparr>ca_status := ''retired'',
                       ca_retirement := Some
                         \<lparr>retirementDate = body_retirementDate rbody,
                          totalExpenses = body_totalExpenses rbody,
                          expenseBreakdown = body_expenseBreakdown rbody,
                          retiredAt = now\<rparr>\<rparr>)
           \<and> filter (\<lambda>d. ca_id d \<noteq> i) (snd (retire_route vr u i rbody now cstore))
               = filter (\<lambda>d. ca_id d \<noteq> i) cstore
           \<and> length (snd (retire_route vr u i rbody now cstore)) = length cstore"
    unfolding s
    by (intro exI [of _ x] conjI find_save_cash [where b = x] filter_save_cash
          length_save_cash) simp_all
next
  show "disburse_route u i body now store =
          (case authorize [''finance'', ''admin''] u of
             Some (k, m) \<Rightarrow> (Failure k m, store)
           | None \<Rightarrow>
               (Failure 400 ''Advance must be finance approved before disbursement'', store))"
    if "findById store i = Some a \<and> status a \<noteq> ''finance_approved''"
    using that by (intro disburse_not_finance_approved_fails) blast+
  show "retire_route vr u i rbody now cstore =
          (if \<not> vr rbody then (Failure 400 ''Validation error'', cstore)
           else (Failure 400 ''Only approved advances can be retired'', cstore))"
    if "find (\<lambda>d. ca_id d = i \<and> ca_user d = user_id u) cstore = Some b
        \<and> ca_status b \<noteq> ''approved''"
    using that by (intro retire_not_approved_fails) blast+
  show "disburse_route u i body now store = (Failure 500 ''Error disbursing advance'', store)"
    if "findById store i = Some a \<and> status a = ''finance_approved''
        \<and> authorize [''finance'', ''admin''] u = None
        \<and> js_or_str (body_method body) ''cash'' \<notin> set [''cash'', ''bank_transfer'', ''check'']"
    using that by (intro disburse_unknown_method_fails) blast+
next
  assume h: "findById store i = Some a \<and> status a = ''finance_approved''
        \<and> authorize [''finance'', ''admin''] u = None \<and> validate_advance a
        \<and> js_or_str (body_method body) ''cash'' \<in> set [''cash'', ''bank_transfer'', ''check'']"
  then have i: "oid a = i" by (auto dest: findById_SomeD)
  from h have f: "findById store i = Some a" by blast
  from h i show "let a' = a\<lparr>disbursement := Some
                      \<lparr>disbursedBy = user_id u, disbursedDate = now,
                       disbursedAmount = js_or_num (body_disbursedAmount body) (amount a),
                       payment_method = js_or_str (body_method body) ''cash'',
                       reference = body_reference body\<rparr>,
                    status := ''disbursed''\<rparr>
         in disburse_route u i body now store =
              (Success 200 ''Cash advance disbursed successfully'' a', save_advance a' store)
            \<and> findById (save_advance a' store) i = Some a'
            \<and> status a' = ''disbursed''
            \<and> \<not> is_success (fst (disburse_route u2 i body2 now2 (save_advance a' store)))
            \<and> snd (disburse_route u2 i body2 now2 (save_advance a' store))
                = save_advance a' store"
    unfolding Let_def
    by (intro conjI disburse_succeeds disburse_repeat_fails [THEN conjunct1]
          disburse_repeat_fails [THEN conjunct2] findById_save_advance [OF f]) simp_all
next
  assume h: "find (\<lambda>d. ca_id d = i \<and> ca_user d = user_id u) cstore = Some b
        \<and> ca_status b = ''approved'' \<and> vr rbody \<and> validate_cash b"
  then have i: "ca_id b = i" by (auto dest: find_Some_set)
  from h have f: "find (\<lambda>d. ca_id d = i \<and> ca_user d = user_id u) cstore = Some b" by blast
  from h i show "let b' = b\<lparr>ca_status := ''retired'',
                    ca_retirement := Some
                      \<lparr>retirementDate = body_retirementDate rbody,
                       totalExpenses = body_totalExpenses rbody,
                       expenseBreakdown = body_expenseBreakdown rbody,
                       retiredAt = now\<rparr>\<rparr>
         in retire_route vr u i rbody now cstore =
              (Success 200 ''Cash advance retired successfully'' b', save_cash b' cstore)
            \<and> find (\<lambda>d. ca_id d = i \<and> ca_user d = user_id u) (save_cash b' cstore) = Some b'
            \<and> ca_status b' = ''retired''
            \<and> \<not> is_success (fst (retire_route vr u2 i rbody2 now2 (save_cash b' cstore)))
            \<and> snd (retire_route vr u2 i rbody2 now2 (save_cash b' cstore))
                = save_cash b' cstore"
    unfolding Let_def
    by (intro conjI retire_succeeds retire_repeat_fails [THEN conjunct1]
          retire_repeat_fails [THEN conjunct2] find_save_cash [OF f]) simp_all
qed

lemma sample_advance_valid:
  "pur \<noteq> [] \<Longrightarrow> length pur \<le> 500 \<Longrightarrow> rn \<noteq> [] \<Longrightarrow>
   st \<in> set [''pending'', ''manager_approved'', ''finance_approved'', ''disbursed'',
              ''rejected'', ''retired''] \<Longrightarrow>
   validate_advance (sample_advance i rn req st pur)"
  by (simp add: validate_advance_def sample_advance_def)

lemma sample_cash_valid:
  "st \<in> set [''pending'', ''approved'', ''rejected'', ''retired''] \<Longrightarrow>
   validate_cash (sample_cash i w st)"
  by (simp add: validate_cash_def sample_cash_def)

theorem disburse_and_retire_guards_witness:
  "disburse_route (sample_user 103 ''chidi'' ''finance'') 12 sample_disburse_body 3000
       (advances sample_system)
     = (Success 200 ''Cash advance disbursed successfully''
          ((sample_advance 12 ''ADV2026110003'' 105 ''finance_approved'' ''conference fees'')
             \<lparr>disbursement := Some
                \<lparr>disbursedBy = 103, disbursedDate = 3000, disbursedAmount = 500,
                 payment_method = ''bank_transfer'', reference = None\<rparr>,
              status := ''disbursed''\<rparr>),
        save_advance
          ((sample_advance 12 ''ADV2026110003'' 105 ''finance_approved'' ''conference fees'')
             \<lparr>disbursement := Some
                \<lparr>disbursedBy = 103, disbursedDate = 3000, disbursedAmount = 500,
                 payment_method = ''bank_transfer'', reference = None\<rparr>,
              status := ''disbursed''\<rparr>) (advances sample_system))
   \<and> findById (snd (disburse_route (sample_user 103 ''chidi'' ''finance'') 12
                      sample_disburse_body 3000 (advances sample_system))) 12
     = Some ((sample_advance 12 ''ADV2026110003'' 105 ''finance_approved'' ''conference fees'')
             \<lparr>disbursement := Some
                \<lparr>disbursedBy = 103, disbursedDate = 3000, disbursedAmount = 500,
                 payment_method = ''bank_transfer'', reference = None\<rparr>,
              status := ''disbursed''\<rparr>)
   \<and> disburse_route (sample_user 103 ''chidi'' ''finance'') 12 wire_disburse_body 3000
       (advances sample_system)
     = (Failure 500 ''Error disbursing advance'', advances sample_system)
   \<and> disburse_route (sample_user 103 ''chidi'' ''finance'') 11 sample_disburse_body 3000
       (advances sample_system)
     = (Failure 400 ''Advance must be finance approved before disbursement'',
        advances sample_system)
   \<and> is_success (fst (retire_route (\<lambda>b. True) (sample_user 101 ''ada'' ''staff'') 21
        sample_retire_body 4000 (cashAdvances sample_system)))
   \<and> map ca_status (snd (retire_route (\<lambda>b. True) (sample_user 101 ''ada'' ''staff'') 21
        sample_retire_body 4000 (cashAdvances sample_system))) = [''retired'', ''retired'']
   \<and> retire_route (\<lambda>b. True) (sample_user 101 ''ada'' ''staff'') 20 sample_retire_body 4000
       (cashAdvances sample_system)
     = (Failure 400 ''Only approved advances can be retired'', cashAdvances sample_system)"
proof -
  have f12: "findById (advances sample_system) 12
      = Some (sample_advance 12 ''ADV2026110003'' 105 ''finance_approved'' ''conference fees'')"
    and f11: "findById (advances sample_system) 11
      = Some (sample_advance 11 ''ADV2026110002'' 101 ''pending'' ''office supplies'')"
    by (simp_all add: findById_def sample_system_def sample_advance_def)
  have s12: "status (sample_advance 12 ''ADV2026110003'' 105 ''finance_approved'' ''conference fees'')
      = ''finance_approved''"
    and s11: "status (sample_advance 11 ''ADV2026110002'' 101 ''pending'' ''office supplies'')
      \<noteq> ''finance_approved''"
    by (simp_all add: sample_advance_def)
  have v12: "validate_advance
      (sample_advance 12 ''ADV2026110003'' 105 ''finance_approved'' ''conference fees'')"
    by (rule sample_advance_valid) simp_all
  have m: "js_or_str (body_method sample_disburse_body) ''cash''
             \<in> set [''cash'', ''bank_transfer'', ''check'']"
    and w: "js_or_str (body_method wire_disburse_body) ''cash''
             \<notin> set [''cash'', ''bank_transfer'', ''check'']"
    by (simp_all add: sample_disburse_body_def wire_disburse_body_def js_or_str_def)
  have au: "authorize [''finance'', ''admin''] (sample_user 103 ''chidi'' ''finance'') = None"
    by (simp add: authorize_def sample_user_def)
  have c21: "find (\<lambda>d. ca_id d = 21 \<and> ca_user d = user_id (sample_user 101 ''ada'' ''staff''))
               (cashAdvances sample_system) = Some (sample_cash 21 101 ''approved'')"
    and c20: "find (\<lambda>d. ca_id d = 20 \<and> ca_user d = user_id (sample_user 101 ''ada'' ''staff''))
               (cashAdvances sample_system) = Some (sample_cash 20 101 ''retired'')"
    by (simp_all add: sample_system_def sample_cash_def sample_user_def)
  have cs: "ca_status (sample_cash 21 101 ''approved'') = ''approved''"
    "ca_status (sample_cash 20 101 ''retired'') \<noteq> ''approved''"
    by (simp_all add: sample_cash_def)
  have v21: "validate_cash (sample_cash 21 101 ''approved'')"
    by (rule sample_cash_valid) simp
  note g1 = disburse_and_retire_guards [where store = "advances sample_system" and i = 12
      and a = "sample_advance 12 ''ADV2026110003'' 105 ''finance_approved'' ''conference fees''"
      and u = "sample_user 103 ''chidi'' ''finance''" and body = sample_disburse_body and now = 3000]
  note g1w = disburse_and_retire_guards [where store = "advances sample_system" and i = 12
      and a = "sample_advance 12 ''ADV2026110003'' 105 ''finance_approved'' ''conference fees''"
      and u = "sample_user 103 ''chidi'' ''finance''" and body = wire_disburse_body and now = 3000]
  note g2 = disburse_and_retire_guards [where store = "advances sample_system" and i = 11
      and a = "sample_advance 11 ''ADV2026110002'' 101 ''pending'' ''office supplies''"
      and u = "sample_user 103 ''chidi'' ''finance''" and body = sample_disburse_body and now = 3000]
  note g3 = disburse_and_retire_guards [where cstore = "cashAdvances sample_system" and i = 21
      and b = "sample_cash 21 101 ''approved''" and vr = "\<lambda>b. True"
      and u = "sample_user 101 ''ada'' ''staff''" and rbody = sample_retire_body and now = 4000]
  note g4 = disburse_and_retire_guards [where cstore = "cashAdvances sample_system" and i = 20
      and b = "sample_cash 20 101 ''retired''" and vr = "\<lambda>b. True"
      and u = "sample_user 101 ''ada'' ''staff''" and rbody = sample_retire_body and now = 4000]
  have r1: "disburse_route (sample_user 103 ''chidi'' ''finance'') 12 sample_disburse_body 3000
       (advances sample_system)
     = (Success 200 ''Cash advance disbursed successfully''
          ((sample_advance 12 ''ADV2026110003'' 105 ''finance_approved'' ''conference fees'')
             \<lparr>disbursement := Some
                \<lparr>disbursedBy = 103, disbursedDate = 3000, disbursedAmount = 500,
                 payment_method = ''bank_transfer'', reference = None\<rparr>,
              status := ''disbursed''\<rparr>),
        save_advance
          ((sample_advance 12 ''ADV2026110003'' 105 ''finance_approved'' ''conference fees'')
             \<lparr>disbursement := Some
                \<lparr>disbursedBy = 103, disbursedDate = 3000, disbursedAmount = 500,
                 payment_method = ''bank_transfer'', reference = None\<rparr>,
              status := ''disbursed''\<rparr>) (advances sample_system))"
    using g1 f12 s12 au v12 m
    by (simp add: Let_def sample_disburse_body_def js_or_num_def js_or_str_def
        sample_user_def sample_advance_def)
  then have ok: "is_success (fst (disburse_route (sample_user 103 ''chidi'' ''finance'') 12
                      sample_disburse_body 3000 (advances sample_system)))"
    by simp
  have r1': "findById (snd (disburse_route (sample_user 103 ''chidi'' ''finance'') 12
                      sample_disburse_body 3000 (advances sample_system))) 12
     = Some ((sample_advance 12 ''ADV2026110003'' 105 ''finance_approved'' ''conference fees'')
             \<lparr>disbursement := Some
                \<lparr>disbursedBy = 103, disbursedDate = 3000, disbursedAmount = 500,
                 payment_method = ''bank_transfer'', reference = None\<rparr>,
              status := ''disbursed''\<rparr>)"
    using g1 ok f12
    by (simp add: Let_def sample_disburse_body_def js_or_num_def js_or_str_def
        sample_user_def sample_advance_def)
  have r1w: "disburse_route (sample_user 103 ''chidi'' ''finance'') 12 wire_disburse_body 3000
       (advances sample_system)
     = (Failure 500 ''Error disbursing advance'', advances sample_system)"
    using g1w f12 s12 au w by simp
  have r2: "disburse_route (sample_user 103 ''chidi'' ''finance'') 11 sample_disburse_body 3000
       (advances sample_system)
     = (Failure 400 ''Advance must be finance approved before disbursement'',
        advances sample_system)"
    using g2 f11 s11 au by simp
  have r3: "retire_route (\<lambda>b. True) (sample_user 101 ''ada'' ''staff'') 21
        sample_retire_body 4000 (cashAdvances sample_system)
      = (Success 200 ''Cash advance retired successfully''
           ((sample_cash 21 101 ''approved'')
              \<lparr>ca_status := ''retired'',
               ca_retirement := Some
                 \<lparr>retirementDate = body_retirementDate sample_retire_body,
                  totalExpenses = body_totalExpenses sample_retire_body,
                  expenseBreakdown = body_expenseBreakdown sample_retire_body,
                  retiredAt = 4000\<rparr>\<rparr>),
         save_cash
           ((sample_cash 21 101 ''approved'')
              \<lparr>ca_status := ''retired'',
               ca_retirement := Some
                 \<lparr>retirementDate = body_retirementDate sample_retire_body,
                  totalExpenses = body_totalExpenses sample_retire_body,
                  expenseBreakdown = body_expenseBreakdown sample_retire_body,
                  retiredAt = 4000\<rparr>\<rparr>) (cashAdvances sample_system))"
    using g3 c21 cs(1) v21 by (simp add: Let_def)
  have r3a: "is_success (fst (retire_route (\<lambda>b. True) (sample_user 101 ''ada'' ''staff'') 21
        sample_retire_body 4000 (cashAdvances sample_system)))"
    unfolding r3 by simp
  have r3b: "map ca_status (snd (retire_route (\<lambda>b. True) (sample_user 101 ''ada'' ''staff'') 21
        sample_retire_body 4000 (cashAdvances sample_system))) = [''retired'', ''retired'']"
    unfolding r3 by (simp add: save_cash_def sample_system_def sample_cash_def)
  have r4: "retire_route (\<lambda>b. True) (sample_user 101 ''ada'' ''staff'') 20 sample_retire_body 4000
       (cashAdvances sample_system)
     = (Failure 400 ''Only approved advances can be retired'', cashAdvances sample_system)"
    using g4 c20 cs(2) by simp
  from r1 r1' r1w r2 r3a r3b r4 show ?thesis by blast
qed

section \<open>Creation and request numbers\<close>

lemma pre_save_validated: "validate_advance a \<Longrightarrow> pre_save year month0 store a = a"
  by (simp add: pre_save_def validate_advance_def)

lemma new_advance_refused: "\<not> validate_advance (new_advance u body now new_id)"
  by (simp add: new_advance_def validate_advance_def)

lemma save_new_refused:
  "save_new year month0 (new_advance u body now new_id) store = Inl ''ValidationError''"
  by (simp add: save_new_def new_advance_refused)

lemma post_advances_route_never_succeeds:
  "\<not> is_success (fst (post_advances_route u body year month0 now new_id store))
   \<and> snd (post_advances_route u body year month0 now new_id store) = store"
  by (simp add: post_advances_route_def save_new_refused)

lemma sample_body_valid: "validateAdvanceRequest sample_body 1000"
  by (simp add: validateAdvanceRequest_def sample_body_def trim_def is_space_def)

text \<open>
  C5. The claim is that every valid creation input produces an advance with the status
  pending, a request number of the month and the amount of the input. The route
  builds the document without a request number and saves it; the schema requires the
  request number and its validators run before the hook that would generate one, so
  the save is refused: for every body that the validation middleware accepts the
  route answers 500 with "Error creating cash advance request" and the collection
  stays as it was. No advance is produced.
\<close>

theorem creation_always_fails:
  assumes "validateAdvanceRequest body now"
  shows "requestNumber (new_advance u body now new_id) = []
         \<and> \<not> validate_advance (new_advance u body now new_id)
         \<and> post_advances_route u body year month0 now new_id store =
             (Failure 500 ''Error creating cash advance request'', store)"
  using assms
  by (simp add: post_advances_route_def save_new_refused new_advance_refused)
     (simp add: new_advance_def)

theorem creation_always_fails_witness:
  "validateAdvanceRequest sample_body 1000
   \<and> post_advances_route (sample_user 101 ''ada'' ''staff'') sample_body 2026 10 1000 99 [] =
       (Failure 500 ''Error creating cash advance request'', [])
   \<and> post_advances_route (sample_user 101 ''ada'' ''staff'') sample_body 2026 10 1000 99
         (advances sample_system) =
       (Failure 500 ''Error creating cash advance request'', advances sample_system)"
  using creation_always_fails [OF sample_body_valid,
          of "sample_user 101 ''ada'' ''staff''" 99 2026 10 "[]"]
        creation_always_fails [OF sample_body_valid,
          of "sample_user 101 ''ada'' ''staff''" 99 2026 10 "advances sample_system"]
        sample_body_valid
  by simp







section \<open>The lifecycle\<close>







lemma cursor_skip_limit_subset: "cursor_skip_limit k l xs = Some ys \<Longrightarrow> set ys \<subseteq> set xs"
  by (auto simp: cursor_skip_limit_def split: if_splits dest: in_set_takeD in_set_dropD)

lemma pipeline_skip_limit_subset: "pipeline_skip_limit k l xs = Some ys \<Longrightarrow> set ys \<subseteq> set xs"
  by (auto simp: pipeline_skip_limit_def split: if_splits dest: in_set_takeD in_set_dropD)

lemma set_sort_requestDate_desc: "set (sort_requestDate_desc xs) = set xs"
  by (simp add: sort_requestDate_desc_def)

lemma matches_staff:
  "user_role u = ''staff'' \<Longrightarrow> matches (build_filter u q) d \<Longrightarrow> requester d = user_id u"
  by (simp add: matches_def build_filter_def)

lemma get_advances_route_items:
  assumes "get_advances_route rx u q us store = Success c m pg"
  shows "set (items pg) \<subseteq> {d \<in> set store. matches (build_filter u q) d}"
proof -
  define f where "f = build_filter u q"
  define k where "k = (q_page q - 1) * q_limit q"
  from assms consider
    (cursor) "cursor_skip_limit k (q_limit q) (sort_requestDate_desc (filter (matches f) store))
                = Some (items pg)"
  | (pipeline) s where
      "pipeline_skip_limit k (q_limit q)
         (sort_requestDate_desc (filter (\<lambda>d. matches f d \<and> search_match rx s us d) store))
                = Some (items pg)"
    unfolding get_advances_route_def Let_def f_def [symmetric] k_def [symmetric]
    by (auto simp: pagination_def split: option.splits if_splits)
  then show ?thesis
  proof cases
    case cursor
    from cursor_skip_limit_subset [OF this] show ?thesis
      by (auto simp: set_sort_requestDate_desc f_def)
  next
    case pipeline
    from pipeline_skip_limit_subset [OF this] show ?thesis
      by (auto simp: set_sort_requestDate_desc f_def)
  qed
qed

lemma my_requests_route_items:
  assumes "my_requests_route u q store = Success c m pg"
  shows "set (items pg) \<subseteq> {d \<in> set store. ca_user d = user_id u}"
proof -
  define matching where "matching = filter (\<lambda>d. ca_user d = user_id u
      \<and> (case not_all (q_status q) of None \<Rightarrow> True | Some v \<Rightarrow> ca_status d = v)) store"
  from assms have "cursor_skip_limit ((q_page q - 1) * q_limit q) (q_limit q) (rev matching)
      = Some (items pg)"
    unfolding my_requests_route_def Let_def matching_def [symmetric]
    by (auto simp: pagination_def split: option.splits)
  from cursor_skip_limit_subset [OF this] show ?thesis
    by (auto simp: matching_def)
qed

section \<open>Listing\<close>

text \<open>
  C7. For every actor whose role is staff and every query (page, limit, status,
  priority, search, start and end date), every advance in the result of the list route
  is a stored advance whose requester is the actor; the my-requests route returns only
  requests of the acting user.
\<close>

theorem staff_listing_is_scoped:
  "(user_role u = ''staff'' \<and> get_advances_route rx u q us store = Success c m pg \<longrightarrow>
      (\<forall>d\<in>set (items pg). requester d = user_id u \<and> d \<in> set store))
   \<and> (my_requests_route u q cstore = Success c' m' pg' \<longrightarrow>
      (\<forall>d\<in>set (items pg'). ca_user d = user_id u \<and> d \<in> set cstore))"
  using get_advances_route_items [of rx u q us store c m pg]
    my_requests_route_items [of u q cstore c' m' pg']
  by (auto dest: matches_staff)

lemma sample_matches:
  "matches (build_filter (sample_user 101 ''ada'' ''staff'') (sample_query p l sr))
     (sample_advance i rn req st pur) \<longleftrightarrow> req = 101"
  "matches (build_filter (sample_user 104 ''dayo'' ''admin'') (sample_query p l sr))
     (sample_advance i rn req st pur)"
  by (simp_all add: matches_def build_filter_def sample_query_def sample_user_def
      sample_advance_def not_all_def)

lemma sample_search_match:
  "search_match contains ''travel'' sample_users
     (sample_advance 10 ''ADV2026110001'' 101 ''rejected'' ''travel reimbursement'')"
  "\<not> search_match contains ''travel'' sample_users
     (sample_advance 11 ''ADV2026110002'' 101 ''pending'' ''office supplies'')"
  "\<not> search_match contains ''travel'' sample_users
     (sample_advance 12 ''ADV2026110003'' 105 ''finance_approved'' ''conference fees'')"
  by (simp_all add: search_match_def sample_users_def sample_user_def sample_advance_def)

lemma sample_advance_fields:
  "requestDate (sample_advance i rn req st pur) = 1000"
  "oid (sample_advance i rn req st pur) = i"
  "requester (sample_advance i rn req st pur) = req"
  by (simp_all add: sample_advance_def)

lemma sample_query_fields:
  "q_page (sample_query p l sr) = p" "q_limit (sample_query p l sr) = l"
  "q_search (sample_query p l sr) = sr" "q_status (sample_query p l sr) = None"
  by (simp_all add: sample_query_def)

theorem staff_listing_is_scoped_witness:
  "user_role (sample_user 101 ''ada'' ''staff'') = ''staff''
   \<and> map_option (\<lambda>p. map oid (items p))
        (payload (get_advances_route contains (sample_user 101 ''ada'' ''staff'')
           (sample_query 1 10 (Some ''travel'')) sample_users (advances sample_system)))
       = Some [10]
   \<and> map_option (\<lambda>p. map requester (items p))
        (payload (get_advances_route contains (sample_user 101 ''ada'' ''staff'')
           (sample_query 1 10 None) sample_users (advances sample_system)))
       = Some [101, 101]
   \<and> map_option (\<lambda>p. map ca_id (items p))
        (payload (my_requests_route (sample_user 101 ''ada'' ''staff'') (sample_query 1 10 None)
           (cashAdvances sample_system @ [sample_cash 22 105 ''pending''])))
       = Some [21, 20]"
proof -
  have r1: "get_advances_route contains (sample_user 101 ''ada'' ''staff'')
           (sample_query 1 10 (Some ''travel'')) sample_users (advances sample_system)
      = Success 200 []
          (pagination [sample_advance 10 ''ADV2026110001'' 101 ''rejected'' ''travel reimbursement'']
             1 10 (Suc (Suc 0)))"
    by (simp add: get_advances_route_def Let_def sample_system_def sample_matches
        sample_search_match sample_query_fields pipeline_skip_limit_def
        sort_requestDate_desc_def sample_advance_fields)
  have r2: "get_advances_route contains (sample_user 101 ''ada'' ''staff'')
           (sample_query 1 10 None) sample_users (advances sample_system)
      = Success 200 []
          (pagination [sample_advance 10 ''ADV2026110001'' 101 ''rejected'' ''travel reimbursement'',
                       sample_advance 11 ''ADV2026110002'' 101 ''pending'' ''office supplies'']
             1 10 (Suc (Suc 0)))"
    by (simp add: get_advances_route_def Let_def sample_system_def sample_matches
        sample_query_fields cursor_skip_limit_def sort_requestDate_desc_def
        sample_advance_fields)
  have r3: "my_requests_route (sample_user 101 ''ada'' ''staff'') (sample_query 1 10 None)
           (cashAdvances sample_system @ [sample_cash 22 105 ''pending''])
      = Success 200 [] (pagination [sample_cash 21 101 ''approved'', sample_cash 20 101 ''retired'']
             1 10 (Suc (Suc 0)))"
    by (simp add: my_requests_route_def Let_def sample_query_fields not_all_def
        sample_system_def sample_cash_def sample_user_def cursor_skip_limit_def)
  note t = staff_listing_is_scoped [where u = "sample_user 101 ''ada'' ''staff''"
      and rx = contains and q = "sample_query 1 10 (Some ''travel'')" and us = sample_users
      and store = "advances sample_system" and c = 200 and m = "[]"
      and pg = "pagination [sample_advance 10 ''ADV2026110001'' 101 ''rejected''
                  ''travel reimbursement''] 1 10 (Suc (Suc 0))"
      and cstore = "cashAdvances sample_system @ [sample_cash 22 105 ''pending'']"
      and c' = 200 and m' = "[]"
      and pg' = "pagination [sample_cash 21 101 ''approved'', sample_cash 20 101 ''retired'']
                   1 10 (Suc (Suc 0))"]
  from t show ?thesis
    unfolding r1 r2 r3
    by (simp add: pagination_def sample_advance_fields sample_cash_def sample_user_def)
qed

text \<open>
  Without a search the list route pages the filtered list: for a positive page size and
  a page from 1 on it answers the slice of that page, the total is the length of the
  filtered list, the number of pages is its ceiling quotient by the page size, and the
  pages 1 to that number, one after the other, are the filtered list in its order.
\<close>

lemma ceil_div_step:
  assumes "0 < (n::nat)" and "0 < k"
  shows "(k + n - 1) div n = Suc ((k - n + n - 1) div n)"
proof -
  have e1: "k + n - 1 = (k - 1) + n" using assms(2) by linarith
  have s: "((k - 1) + n) div n = Suc ((k - 1) div n)" using assms(1) by simp
  have e2: "(k - n + n - 1) div n = (k - 1) div n"
  proof (cases "n \<le> k")
    case True
    then have "k - n + n - 1 = k - 1" by linarith
    then show ?thesis by (simp only:)
  next
    case False
    then have "k - n + n - 1 = n - 1" by linarith
    moreover have "(n - 1) div n = 0" using assms(1) by (intro div_less) linarith
    moreover have "(k - 1) div n = 0" using False by (intro div_less) linarith
    ultimately show ?thesis by (simp only:)
  qed
  show ?thesis unfolding e1 s e2 ..
qed

lemma pages_cover_list:
  assumes "0 < n"
  shows "concat (map (\<lambda>k. take n (drop (k * n) xs)) [0..<(length xs + n - 1) div n]) = xs"
proof (induction xs rule: length_induct)
  case (1 xs)
  show ?case
  proof (cases "xs = []")
    case True
    have "(n - 1) div n = 0" using assms by (intro div_less) linarith
    with True show ?thesis by simp
  next
    case False
    then have len: "0 < length xs" by simp
    have shorter: "length (drop n xs) < length xs" using assms len by simp
    define m where "m = (length (drop n xs) + n - 1) div n"
    have m: "(length xs + n - 1) div n = Suc m"
      unfolding m_def using ceil_div_step [OF assms len] by (simp only: length_drop)
    have ih: "concat (map (\<lambda>k. take n (drop (k * n) (drop n xs))) [0..<m]) = drop n xs"
      unfolding m_def using 1 shorter by blast
    have "[0..<Suc m] = 0 # map Suc [0..<m]"
      by (simp only: upt_conv_Cons [OF zero_less_Suc] map_Suc_upt)
    then have "concat (map (\<lambda>k. take n (drop (k * n) xs)) [0..<Suc m])
        = take n xs @ concat (map (\<lambda>k. take n (drop (Suc k * n) xs)) [0..<m])"
      by (simp only: list.map concat.simps map_map comp_def mult_0 drop_0)
    also have "(\<lambda>k. take n (drop (Suc k * n) xs)) = (\<lambda>k. take n (drop (k * n) (drop n xs)))"
      by (simp only: drop_drop mult_Suc add.commute)
    also note ih
    finally show ?thesis unfolding m by (simp only: append_take_drop_id)
  qed
qed

lemma nat_ceil_div:
  assumes "0 < (b::nat)"
  shows "(a + b - 1) div b = (if a mod b = 0 then a div b else a div b + 1)"
proof -
  define q r where "q = a div b" and "r = a mod b"
  have a: "a = r + q * b" unfolding q_def r_def by simp
  have r: "r < b" unfolding r_def using assms by simp
  show ?thesis
  proof (cases "r = 0")
    case True
    then have "a + b - 1 = (b - 1) + q * b" using a assms by simp
    moreover have "((b - 1) + q * b) div b = q + (b - 1) div b"
      using assms by (intro div_mult_self1) simp
    ultimately have "(a + b - 1) div b = q + (b - 1) div b" by (simp only:)
    moreover have "(b - 1) div b = 0" using assms by (intro div_less) linarith
    ultimately show ?thesis using True by (simp add: q_def r_def)
  next
    case False
    then have "a + b - 1 = (r - 1) + (q + 1) * b" using a by simp
    moreover have "((r - 1) + (q + 1) * b) div b = (q + 1) + (r - 1) div b"
      using assms by (intro div_mult_self1) simp
    ultimately have "(a + b - 1) div b = (q + 1) + (r - 1) div b" by (simp only:)
    moreover have "(r - 1) div b = 0" using r by (intro div_less) linarith
    ultimately show ?thesis using False by (simp add: q_def r_def)
  qed
qed

lemma js_ceil_div_pos:
  assumes "0 < L"
  shows "js_ceil_div N L = Num (int ((N + nat L - 1) div nat L))"
proof -
  define b where "b = nat L"
  have L: "L = int b" and b: "0 < b" unfolding b_def using assms by simp_all
  have "(- int N) div int b
      = (if int N mod int b = 0 then - (int N div int b) else - (int N div int b) - 1)"
    using b by (intro zdiv_zminus1_eq_if) simp
  then have "- ((- int N) div int b)
      = (if N mod b = 0 then int (N div b) else int (N div b) + 1)"
    by (simp add: zdiv_int [symmetric] zmod_int [symmetric] del: of_nat_div of_nat_mod)
  also have "\<dots> = int ((N + b - 1) div b)"
    unfolding nat_ceil_div [OF b] by simp
  finally show ?thesis
    unfolding js_ceil_div_def L using b by (simp add: b_def [symmetric])
qed

lemma listing_without_search:
  assumes "0 < q_limit q" and "1 \<le> q_page q" and "q_search q = None"
  shows "get_advances_route rx u q us store =
     Success 200 []
       \<lparr>items = take (nat (q_limit q))
                 (drop (nat (q_page q - 1) * nat (q_limit q))
                    (sort_requestDate_desc (filter (matches (build_filter u q)) store))),
        currentPage = q_page q,
        totalPages = Num (int ((length (filter (matches (build_filter u q)) store)
                                 + nat (q_limit q) - 1) div nat (q_limit q))),
        totalAdvances = length (filter (matches (build_filter u q)) store),
        hasNext = (q_page q < int ((length (filter (matches (build_filter u q)) store)
                                     + nat (q_limit q) - 1) div nat (q_limit q))),
        hasPrev = (1 < q_page q)\<rparr>"
proof -
  have skip: "\<not> (q_page q - 1) * q_limit q < 0"
    using assms(1,2) by (simp add: mult_less_0_iff)
  have n: "nat ((q_page q - 1) * q_limit q) = nat (q_page q - 1) * nat (q_limit q)"
    using assms(2) by (simp add: nat_mult_distrib)
  have l: "q_limit q \<noteq> 0" "\<bar>q_limit q\<bar> = q_limit q" using assms(1) by simp_all
  show ?thesis
    unfolding get_advances_route_def Let_def cursor_skip_limit_def pagination_def
      js_ceil_div_pos [OF assms(1)]
    using skip by (simp add: assms(3) n l)
qed

lemma listing_pages_cover:
  assumes "0 < q_limit q" and "q_search q = None"
  shows "concat (map (\<lambda>k. case payload (get_advances_route rx u (q\<lparr>q_page := int k + 1\<rparr>) us store) of
                            None \<Rightarrow> [] | Some pg \<Rightarrow> items pg)
           [0..<(length (filter (matches (build_filter u q)) store) + nat (q_limit q) - 1)
                  div nat (q_limit q)])
         = sort_requestDate_desc (filter (matches (build_filter u q)) store)"
proof -
  define xs where "xs = sort_requestDate_desc (filter (matches (build_filter u q)) store)"
  have len: "length xs = length (filter (matches (build_filter u q)) store)"
    by (simp add: xs_def sort_requestDate_desc_def)
  have f: "build_filter u (q\<lparr>q_page := p\<rparr>) = build_filter u q" for p
    by (simp add: build_filter_def)
  have page: "(case payload (get_advances_route rx u (q\<lparr>q_page := int k + 1\<rparr>) us store) of
                 None \<Rightarrow> [] | Some pg \<Rightarrow> items pg)
              = take (nat (q_limit q)) (drop (k * nat (q_limit q)) xs)" for k
    using listing_without_search [of "q\<lparr>q_page := int k + 1\<rparr>" rx u us store] assms
    by (simp add: f xs_def)
  have "0 < nat (q_limit q)" using assms(1) by simp
  from pages_cover_list [OF this, of xs] show ?thesis
    unfolding page len xs_def [symmetric] .
qed

text \<open>
  C8, evaluated on the search branch of the list route. Three advances are stored and
  one matches the search for travel; with page size 1 the route reports 3 records and 3
  pages, page 1 holds the one match and announces a next page, and pages 2 and 3 are
  empty. The count is taken with the filter alone, the records with the filter and the
  search.
\<close>

theorem search_pagination_miscount:
  "map_option (\<lambda>p. (map oid (items p), totalPages p, totalAdvances p, hasNext p))
        (payload (get_advances_route contains (sample_user 104 ''dayo'' ''admin'')
           (sample_query 1 1 (Some ''travel'')) sample_users (advances sample_system)))
       = Some ([10], Num 3, 3, True)
   \<and> map_option (\<lambda>p. (map oid (items p), totalPages p, totalAdvances p, hasNext p))
        (payload (get_advances_route contains (sample_user 104 ''dayo'' ''admin'')
           (sample_query 2 1 (Some ''travel'')) sample_users (advances sample_system)))
       = Some ([], Num 3, 3, True)
   \<and> map_option (\<lambda>p. (map oid (items p), totalPages p, totalAdvances p, hasNext p))
        (payload (get_advances_route contains (sample_user 104 ''dayo'' ''admin'')
           (sample_query 3 1 (Some ''travel'')) sample_users (advances sample_system)))
       = Some ([], Num 3, 3, False)
   \<and> length (filter (\<lambda>d. matches (build_filter (sample_user 104 ''dayo'' ''admin'')
                                  (sample_query 1 1 (Some ''travel''))) d
                        \<and> search_match contains ''travel'' sample_users d)
               (advances sample_system)) = 1"
  by (simp add: get_advances_route_def Let_def sample_system_def sample_matches
      sample_search_match sample_query_fields pipeline_skip_limit_def
      sort_requestDate_desc_def sample_advance_fields pagination_def js_ceil_div_def)

end
